theory Spec2Isabelle
  imports Main "HOL-Library.Word" "HOL-Library.Sublist"
begin

section \<open>Go values and the library functions the helpers call\<close>

text \<open>
  The helpers run on 64-bit Linux, the platform of SQL Server: Go's \<open>uint\<close> and
  \<open>uint64\<close> are 64-bit words, on which \<open>+\<close> and \<open>-\<close> wrap. Values of
  Go's \<open>int\<close> and \<open>int64\<close> are kept as HOL integers inside the 64-bit signed range;
  the one addition the code performs on them (\<open>OcfExit\<close>) has its wrap-around
  written out. A \<open>byte\<close> is an 8-bit word. Strings are byte lists, as in Go.
\<close>

type_synonym go_uint = "64 word"
type_synonym go_byte = "8 word"

definition wrap_int64 :: "int \<Rightarrow> int" where
  "wrap_int64 x = (x + 2 ^ 63) mod 2 ^ 64 - 2 ^ 63"

definition isDigit :: "char \<Rightarrow> bool" where
  "isDigit c = (c \<in> set ''0123456789'')"

text \<open>The verb \<open>%d\<close> of package fmt: a decimal numeral, with a minus sign when negative.\<close>

fun digits :: "nat \<Rightarrow> string" where
  "digits n = (if n < 10 then [''0123456789'' ! n]
               else digits (n div 10) @ [''0123456789'' ! (n mod 10)])"

declare digits.simps [simp del]

definition fmt_d :: "int \<Rightarrow> string" where
  "fmt_d i = (if i < 0 then CHR ''-'' # digits (nat (- i)) else digits (nat i))"

text \<open>The value of a string of decimal digits, as strconv accumulates it.\<close>

definition digitVal :: "char \<Rightarrow> nat" where
  "digitVal c = of_char c - 48"

definition decimal :: "string \<Rightarrow> nat" where
  "decimal ds = foldl (\<lambda>n c. n * 10 + digitVal c) 0 ds"

text \<open>
  \<open>strconv.ParseInt(s, 10, 64)\<close> and \<open>strconv.Atoi(s)\<close> (which is
  \<open>ParseInt(s, 10, 0)\<close> with a 64-bit \<open>int\<close>) accept an optional sign followed by
  one or more ASCII digits, and fail with a range error when the value does not fit a
  signed 64-bit integer. \<open>None\<close> is the syntax error, \<open>Some (Inl ())\<close> the range
  error.
\<close>

definition parseSigned64 :: "string \<Rightarrow> (unit + int) option" where
  "parseSigned64 s =
     (let neg = (s \<noteq> [] \<and> hd s = CHR ''-'');
          ds = (if s \<noteq> [] \<and> (hd s = CHR ''+'' \<or> hd s = CHR ''-'') then tl s else s)
      in if ds = [] \<or> \<not> list_all isDigit ds then None
         else let v = (if neg then - int (decimal ds) else int (decimal ds))
              in if - (2 ^ 63) \<le> v \<and> v < 2 ^ 63 then Some (Inr v) else Some (Inl ()))"

definition Atoi :: "string \<Rightarrow> int option" where
  "Atoi s = (case parseSigned64 s of Some (Inr v) \<Rightarrow> Some v | _ \<Rightarrow> None)"

text \<open>
  \<open>strings.Split(s, sep)\<close> for a one-byte separator: every piece between separators,
  the empty pieces included; the empty string gives one empty piece.
\<close>

fun Split :: "string \<Rightarrow> char \<Rightarrow> string list" where
  "Split [] sep = [[]]"
| "Split (c # cs) sep =
     (if c = sep then [] # Split cs sep
      else (case Split cs sep of [] \<Rightarrow> [[c]] | l # ls \<Rightarrow> (c # l) # ls))"

text \<open>
  \<open>strings.Replace(s, old, new, -1)\<close> for a non-empty \<open>old\<close>: scanning from the left,
  every non-overlapping occurrence of \<open>old\<close> is replaced. (The source only calls it
  with \<open>old = "]"\<close>; Go's rule for an empty \<open>old\<close> is not modelled, so there is no
  equation for it.)
\<close>

function Replace :: "string \<Rightarrow> string \<Rightarrow> string \<Rightarrow> string" where
  "Replace [] (c # cs) new = []"
| "Replace (x # xs) (c # cs) new =
     (if prefix (c # cs) (x # xs) then new @ Replace (drop (length cs) xs) (c # cs) new
      else x # Replace xs (c # cs) new)"
| "Replace s [] new = undefined"
  by pat_completeness auto
termination
  by (relation "measure (\<lambda>(s, old, new). length s)") auto

section \<open>Package mssqlcommon\<close>

subsection \<open>Errors\<close>

text \<open>
  A Go \<open>error\<close> is the sentinel \<open>sql.ErrNoRows\<close>, a message (\<open>errors.New\<close>,
  \<open>fmt.Errorf\<close>, or an error of the SQL driver, of which only the message is read), or
  a \<open>*ServerUnhealthyError\<close> with its two fields. The nil error is \<open>None\<close> of
  \<open>error option\<close>.
\<close>

type_synonym ServerHealth = go_uint

definition ServerDownOrUnresponsive :: ServerHealth where "ServerDownOrUnresponsive = 1"
definition ServerCriticalError :: ServerHealth where "ServerCriticalError = 3"
definition ServerModerateError :: ServerHealth where "ServerModerateError = 4"
definition ServerAnyQualifiedError :: ServerHealth where "ServerAnyQualifiedError = 5"

datatype error =
    ErrNoRows
  | errorString string
  | ServerUnhealthyError (RawValue: ServerHealth) (Inner: error)

fun Error :: "error \<Rightarrow> string" where
  "Error ErrNoRows = ''sql: no rows in result set''"
| "Error (errorString s) = s"
| "Error (ServerUnhealthyError rv inner) =
     (if rv = ServerAnyQualifiedError then ''AnyQualified '' @ Error inner
      else if rv = ServerModerateError then ''Moderate '' @ Error inner
      else if rv = ServerCriticalError then ''Critical '' @ Error inner
      else if rv = ServerDownOrUnresponsive then ''Unresponsive or down '' @ Error inner
      else ''Unknown ('' @ fmt_d (uint rv) @ '') '' @ Error inner)"

subsection \<open>Diagnostics\<close>

record Diagnostics =
  System :: bool
  Resource :: bool
  QueryProcessing :: bool

definition Diagnose :: "Diagnostics \<Rightarrow> error option" where
  "Diagnose diagnostics =
     (if \<not> System diagnostics then
        Some (ServerUnhealthyError ServerCriticalError
                (errorString ''sp_server_diagnostics result indicates system error''))
      else if \<not> Resource diagnostics then
        Some (ServerUnhealthyError ServerModerateError
                (errorString ''sp_server_diagnostics result indicates resource error''))
      else if \<not> QueryProcessing diagnostics then
        Some (ServerUnhealthyError ServerAnyQualifiedError
                (errorString ''sp_server_diagnostics result indicates query processing error''))
      else None)"

subsection \<open>OCF exit codes\<close>

text \<open>
  The nine process-wide variables, all zero when the process starts. A function that
  assigns them takes the record and returns it updated.
\<close>

record OcfExitCodes =
  OCF_ERR_CONFIGURED :: int
  OCF_ERR_GENERIC :: int
  OCF_ERR_ARGS :: int
  OCF_ERR_PERM :: int
  OCF_ERR_UNIMPLEMENTED :: int
  OCF_FAILED_MASTER :: int
  OCF_NOT_RUNNING :: int
  OCF_RUNNING_MASTER :: int
  OCF_SUCCESS :: int

definition initialOcfExitCodes :: OcfExitCodes where
  "initialOcfExitCodes =
     \<lparr>OCF_ERR_CONFIGURED = 0, OCF_ERR_GENERIC = 0, OCF_ERR_ARGS = 0, OCF_ERR_PERM = 0,
      OCF_ERR_UNIMPLEMENTED = 0, OCF_FAILED_MASTER = 0, OCF_NOT_RUNNING = 0,
      OCF_RUNNING_MASTER = 0, OCF_SUCCESS = 0\<rparr>"

text \<open>The process environment; \<open>os.Getenv\<close> gives the empty string for an unset name.\<close>

type_synonym environ = "string \<Rightarrow> string option"

definition Getenv :: "environ \<Rightarrow> string \<Rightarrow> string" where
  "Getenv env name = (case env name of None \<Rightarrow> [] | Some v \<Rightarrow> v)"

definition importOcfExitCode :: "environ \<Rightarrow> string \<Rightarrow> int \<times> error option" where
  "importOcfExitCode env name =
     (let stringValue = Getenv env name
      in case Atoi stringValue of
           None \<Rightarrow> (0, Some (errorString
                      (name @ '' is set to an invalid value ['' @ stringValue @ '']'')))
         | Some intValue \<Rightarrow> (intValue, None))"

text \<open>
  Each assignment \<open>OCF_X, err = importOcfExitCode("OCF_X")\<close> writes the variable
  before \<open>err\<close> is tested, so a failed import leaves 0 in the variable it failed on.
\<close>

definition ImportOcfExitCodes :: "environ \<Rightarrow> OcfExitCodes \<Rightarrow> error option \<times> OcfExitCodes" where
  "ImportOcfExitCodes env g0 =
     (let (v, err) = importOcfExitCode env ''OCF_ERR_CONFIGURED'';
          g1 = g0\<lparr>OCF_ERR_CONFIGURED := v\<rparr>
      in if err \<noteq> None then (err, g1) else
      let (v, err) = importOcfExitCode env ''OCF_ERR_GENERIC'';
          g2 = g1\<lparr>OCF_ERR_GENERIC := v\<rparr>
      in if err \<noteq> None then (err, g2) else
      let (v, err) = importOcfExitCode env ''OCF_ERR_ARGS'';
          g3 = g2\<lparr>OCF_ERR_ARGS := v\<rparr>
      in if err \<noteq> None then (err, g3) else
      let (v, err) = importOcfExitCode env ''OCF_ERR_PERM'';
          g4 = g3\<lparr>OCF_ERR_PERM := v\<rparr>
      in if err \<noteq> None then (err, g4) else
      let (v, err) = importOcfExitCode env ''OCF_ERR_UNIMPLEMENTED'';
          g5 = g4\<lparr>OCF_ERR_UNIMPLEMENTED := v\<rparr>
      in if err \<noteq> None then (err, g5) else
      let (v, err) = importOcfExitCode env ''OCF_FAILED_MASTER'';
          g6 = g5\<lparr>OCF_FAILED_MASTER := v\<rparr>
      in if err \<noteq> None then (err, g6) else
      let (v, err) = importOcfExitCode env ''OCF_NOT_RUNNING'';
          g7 = g6\<lparr>OCF_NOT_RUNNING := v\<rparr>
      in if err \<noteq> None then (err, g7) else
      let (v, err) = importOcfExitCode env ''OCF_RUNNING_MASTER'';
          g8 = g7\<lparr>OCF_RUNNING_MASTER := v\<rparr>
      in if err \<noteq> None then (err, g8) else
      let (v, err) = importOcfExitCode env ''OCF_SUCCESS'';
          g9 = g8\<lparr>OCF_SUCCESS := v\<rparr>
      in if err \<noteq> None then (err, g9) else
      (None, g9))"

text \<open>The nine names in the order in which \<open>ImportOcfExitCodes\<close> imports them.\<close>

definition importOrder :: "string list" where
  "importOrder =
     [''OCF_ERR_CONFIGURED'', ''OCF_ERR_GENERIC'', ''OCF_ERR_ARGS'', ''OCF_ERR_PERM'',
      ''OCF_ERR_UNIMPLEMENTED'', ''OCF_FAILED_MASTER'', ''OCF_NOT_RUNNING'',
      ''OCF_RUNNING_MASTER'', ''OCF_SUCCESS'']"

subsection \<open>How a run ends\<close>

text \<open>
  \<open>Exit\<close> writes the error to the logger line by line and calls \<open>os.Exit\<close>, which
  does not return and runs no deferred call: \<open>OsExit code lines\<close>. Otherwise
  \<open>doMain\<close> returns an error value to \<open>main\<close> (\<open>Returned\<close>), or the run panics
  on a nil \<open>*sql.DB\<close> (\<open>NilPanic\<close>).
\<close>

datatype outcome =
    OsExit int "string list"
  | Returned "error option"
  | NilPanic

definition Exit :: "int \<Rightarrow> error option \<Rightarrow> outcome" where
  "Exit exitCode err =
     OsExit exitCode (case err of None \<Rightarrow> [] | Some e \<Rightarrow> Split (Error e) (CHR 0x0A))"

definition OcfExit :: "int \<Rightarrow> error option \<Rightarrow> outcome" where
  "OcfExit ocfExitCode err = Exit (wrap_int64 (ocfExitCode + 10)) err"

subsection \<open>The SQL Server instance\<close>

text \<open>
  Everything a run does to the outside world is recorded, in order, as a list of events.
  The instance behind a \<open>*sql.DB\<close> is a record of reply functions: what it answers to
  a statement or to one of the typed queries of the packages, given all the events so
  far (so that the answer to a repeated query can change). A statement sent with
  \<open>db.Exec\<close> is recorded with its text and arguments. Output to the standard-output
  logger and \<open>time.Sleep\<close> are not modelled.
\<close>

datatype sqlarg = ArgString string | ArgInt int

record diagnosticsRow =
  creationTime :: string
  componentType :: string
  componentName :: string
  state :: int
  stateDesc :: string
  data :: string

datatype event =
    CallReadCredentialsFile string
  | CallOpenDB string go_uint string string string int
  | CallExec string "sqlarg list"
  | CallQueryDiagnostics
  | CallGetRole string
  | CallGetAvailabilityMode string
  | CallGetSequenceNumber string
  | CallGetDBFailoverMode string
  | CallGetDatabaseStates string
  | CallGetNumSyncCommitReplicas string
  | CallClose
  | SequenceNumberOut int

record server =
  Exec_reply :: "event list \<Rightarrow> string \<Rightarrow> sqlarg list \<Rightarrow> error option"
  sp_server_diagnostics_reply ::
    "event list \<Rightarrow> error + ((error + diagnosticsRow) list \<times> error option)"
  GetRole_reply :: "event list \<Rightarrow> string \<Rightarrow> error + (go_byte \<times> string)"
  GetAvailabilityMode_reply :: "event list \<Rightarrow> string \<Rightarrow> error + (go_byte \<times> string)"
  GetSequenceNumber_reply :: "event list \<Rightarrow> string \<Rightarrow> error + int"
  GetDBFailoverMode_reply :: "event list \<Rightarrow> string \<Rightarrow> error + bool"
  GetDatabaseStates_reply :: "event list \<Rightarrow> string \<Rightarrow> error + string"
  GetNumSyncCommitReplicas_reply :: "event list \<Rightarrow> string \<Rightarrow> error + go_uint"

definition Exec :: "server \<Rightarrow> string \<Rightarrow> sqlarg list \<Rightarrow> event list \<Rightarrow> error option \<times> event list" where
  "Exec db query args h = (Exec_reply db h query args, h @ [CallExec query args])"

subsection \<open>QueryDiagnostics\<close>

text \<open>
  The reply to \<open>EXEC sp_server_diagnostics\<close> is an error of \<open>db.Query\<close>, or the rows
  (for each row, the six scanned columns or the error of \<open>rows.Scan\<close>) with the
  value of \<open>rows.Err()\<close>. The loop stops at the first row that fails to scan; the
  error returned is \<open>rows.Err()\<close>.
\<close>

definition noDiagnostics :: Diagnostics where
  "noDiagnostics = \<lparr>System = False, Resource = False, QueryProcessing = False\<rparr>"

fun scanDiagnostics :: "(error + diagnosticsRow) list \<Rightarrow> Diagnostics \<Rightarrow> Diagnostics" where
  "scanDiagnostics [] result = result"
| "scanDiagnostics (Inl err # rows) result = result"
| "scanDiagnostics (Inr r # rows) result =
     scanDiagnostics rows
       (if componentName r = ''system'' then result\<lparr>System := (state r = 1)\<rparr>
        else if componentName r = ''resource'' then result\<lparr>Resource := (state r = 1)\<rparr>
        else if componentName r = ''query_processing''
          then result\<lparr>QueryProcessing := (state r = 1)\<rparr>
        else result)"

definition QueryDiagnostics :: "server \<Rightarrow> event list \<Rightarrow> (Diagnostics \<times> error option) \<times> event list" where
  "QueryDiagnostics db h =
     (case sp_server_diagnostics_reply db h of
        Inl err \<Rightarrow> ((noDiagnostics, Some err), h @ [CallQueryDiagnostics])
      | Inr (rows, rowsErr) \<Rightarrow>
          ((scanDiagnostics rows noDiagnostics, rowsErr), h @ [CallQueryDiagnostics]))"

subsection \<open>OpenDB and OpenDBWithHealthCheck\<close>

text \<open>
  \<open>OpenDB\<close> builds the connection string from its arguments, opens a connection and
  pings it. What the driver and the network do with that is an input: \<open>dial\<close> gives,
  for the arguments that go into the connection string and the number of the attempt,
  the error of \<open>sql.Open\<close> or \<open>db.Ping\<close> or else the instance that was reached.
  \<open>connectionTimeout / time.Second\<close> is Go's integer quotient, which truncates.
\<close>

type_synonym dialer = "string \<Rightarrow> go_uint \<Rightarrow> string \<Rightarrow> string \<Rightarrow> string \<Rightarrow> int \<Rightarrow> nat \<Rightarrow> error + server"

definition quot :: "int \<Rightarrow> int \<Rightarrow> int" where
  "quot a b = (if (a < 0) = (b < 0) then \<bar>a\<bar> div \<bar>b\<bar> else - (\<bar>a\<bar> div \<bar>b\<bar>))"

definition OpenDB ::
  "dialer \<Rightarrow> string \<Rightarrow> go_uint \<Rightarrow> string \<Rightarrow> string \<Rightarrow> string \<Rightarrow> int \<Rightarrow> nat \<Rightarrow> error + server" where
  "OpenDB dial hostname port username password applicationName connectionTimeout i =
     (case dial hostname port username password applicationName
             (quot connectionTimeout 1000000000) i of
        Inl err \<Rightarrow> Inl (ServerUnhealthyError ServerDownOrUnresponsive err)
      | Inr db \<Rightarrow> Inr db)"

text \<open>
  \<open>OpenDBWithHealthCheck\<close> runs a connector goroutine beside the main flow, which
  selects on two unbuffered channels and the timer. The state of the pair:
  \<^item> the connector is inside attempt \<open>i\<close> (\<open>Connecting i\<close>), blocked sending on
    \<open>dbChannel\<close> or on \<open>errChannel\<close>, asleep after attempt \<open>i\<close>, or has returned;
  \<^item> the main flow is in its \<open>select\<close>, with the current value of \<open>err\<close>, or has
    returned the pair \<open>(db, err)\<close>.
  Three more fields record the history of the run: the errors the main flow has received,
  the number of attempts that have completed, and whether one of them succeeded.

  Which of the enabled moves happens next is decided by the scheduler, the network and
  the clock; a run is given by the list of these decisions. A decision that is not enabled
  in the current state changes nothing. The timer may fire at any point of the list.
\<close>

datatype connector =
    Connecting nat
  | SendingDb server
  | SendingErr nat error
  | Sleeping nat
  | ConnectorReturned

datatype mainflow =
    Selecting "error option"
  | MainReturned "server option" "error option"

record healthcheck =
  connector :: connector
  mainflow :: mainflow
  observed :: "error list"
  completed :: nat
  succeeded :: bool
  events :: "event list"

datatype tick = ConnectorRuns | MainReceivesErr | MainReceivesDb | DeadlineFires

definition timedOutError :: "string \<Rightarrow> go_uint \<Rightarrow> error" where
  "timedOutError hostname port =
     ServerUnhealthyError ServerDownOrUnresponsive
       (errorString (''timed out while attempting to connect to the instance at '' @ hostname
                     @ '':'' @ fmt_d (uint port) @ '' and run sp_server_diagnostics''))"

definition healthcheck_step ::
  "dialer \<Rightarrow> string \<Rightarrow> go_uint \<Rightarrow> string \<Rightarrow> string \<Rightarrow> string \<Rightarrow> int \<Rightarrow> tick \<Rightarrow> healthcheck
   \<Rightarrow> healthcheck" where
  "healthcheck_step dial hostname port username password applicationName connectionTimeout t s =
     (case t of
        ConnectorRuns \<Rightarrow>
          (case connector s of
             Connecting i \<Rightarrow>
               (case OpenDB dial hostname port username password applicationName
                       connectionTimeout i of
                  Inr db \<Rightarrow>
                    s\<lparr>connector := SendingDb db, completed := completed s + 1,
                      succeeded := True,
                      events := events s @ [CallOpenDB hostname port username password
                                              applicationName connectionTimeout]\<rparr>
                | Inl err \<Rightarrow>
                    s\<lparr>connector := SendingErr i err, completed := completed s + 1,
                      events := events s @ [CallOpenDB hostname port username password
                                              applicationName connectionTimeout]\<rparr>)
           | Sleeping i \<Rightarrow> s\<lparr>connector := Connecting (i + 1)\<rparr>
           | _ \<Rightarrow> s)
      | MainReceivesDb \<Rightarrow>
          (case (connector s, mainflow s) of
             (SendingDb db, Selecting e) \<Rightarrow>
               (case QueryDiagnostics db (events s) of
                  ((diagnostics, Some err), h1) \<Rightarrow>
                    s\<lparr>connector := ConnectorReturned, mainflow := MainReturned None (Some err),
                      events := h1 @ [CallClose]\<rparr>
                | ((diagnostics, None), h1) \<Rightarrow>
                    s\<lparr>connector := ConnectorReturned,
                      mainflow := MainReturned (Some db) (Diagnose diagnostics),
                      events := h1\<rparr>)
           | _ \<Rightarrow> s)
      | MainReceivesErr \<Rightarrow>
          (case (connector s, mainflow s) of
             (SendingErr i err, Selecting e) \<Rightarrow>
               s\<lparr>connector := Sleeping i, mainflow := Selecting (Some err),
                 observed := observed s @ [err]\<rparr>
           | _ \<Rightarrow> s)
      | DeadlineFires \<Rightarrow>
          (case mainflow s of
             Selecting e \<Rightarrow>
               s\<lparr>mainflow := MainReturned None
                    (Some (case e of None \<Rightarrow> timedOutError hostname port | Some err \<Rightarrow> err))\<rparr>
           | _ \<Rightarrow> s))"

text \<open>The run stops as soon as the main flow has returned.\<close>

fun healthcheck_run ::
  "dialer \<Rightarrow> string \<Rightarrow> go_uint \<Rightarrow> string \<Rightarrow> string \<Rightarrow> string \<Rightarrow> int \<Rightarrow> tick list \<Rightarrow> healthcheck
   \<Rightarrow> healthcheck" where
  "healthcheck_run dial hostname port username password applicationName connectionTimeout [] s = s"
| "healthcheck_run dial hostname port username password applicationName connectionTimeout (t # ts) s =
     (case mainflow s of
        MainReturned db err \<Rightarrow> s
      | Selecting e \<Rightarrow>
          healthcheck_run dial hostname port username password applicationName connectionTimeout ts
            (healthcheck_step dial hostname port username password applicationName
               connectionTimeout t s))"

definition healthcheck_start :: "event list \<Rightarrow> healthcheck" where
  "healthcheck_start h =
     \<lparr>connector = Connecting 1, mainflow = Selecting None, observed = [], completed = 0,
      succeeded = False, events = h\<rparr>"

text \<open>
  The result of the call under a list of decisions; \<open>None\<close> when the list ends with
  the main flow still in its \<open>select\<close>.
\<close>

definition OpenDBWithHealthCheck ::
  "dialer \<Rightarrow> string \<Rightarrow> go_uint \<Rightarrow> string \<Rightarrow> string \<Rightarrow> string \<Rightarrow> int \<Rightarrow> tick list \<Rightarrow> event list
   \<Rightarrow> ((server option \<times> error option) \<times> event list) option" where
  "OpenDBWithHealthCheck dial hostname port username password applicationName connectionTimeout
     decisions h =
     (let s = healthcheck_run dial hostname port username password applicationName
                connectionTimeout decisions (healthcheck_start h)
      in case mainflow s of
           Selecting e \<Rightarrow> None
         | MainReturned db err \<Rightarrow> Some ((db, err), events s))"

section \<open>Package mssqlcommon/ag\<close>

type_synonym AvailabilityMode = go_byte
type_synonym Role = go_byte

definition AmASYNCHRONOUS_COMMIT :: AvailabilityMode where "AmASYNCHRONOUS_COMMIT = 0"
definition AmSYNCHRONOUS_COMMIT :: AvailabilityMode where "AmSYNCHRONOUS_COMMIT = 1"
definition AmCONFIGURATION_ONLY :: AvailabilityMode where "AmCONFIGURATION_ONLY = 4"

definition RoleRESOLVING :: Role where "RoleRESOLVING = 0"
definition RolePRIMARY :: Role where "RolePRIMARY = 1"
definition RoleSECONDARY :: Role where "RoleSECONDARY = 2"


definition quoteName :: "string \<Rightarrow> string" where
  "quoteName s = ''['' @ Replace s '']'' '']]'' @ '']''"

text \<open>
  The specification's wording of the escaping, for comparison with the code: the string
  with every \<open>]\<close> replaced by \<open>]]\<close>, character by character.
\<close>

definition doubledBrackets_spec :: "string \<Rightarrow> string" where
  "doubledBrackets_spec s = concat (map (\<lambda>c. if c = CHR '']'' then '']]'' else [c]) s)"

definition Failover :: "server \<Rightarrow> string \<Rightarrow> event list \<Rightarrow> error option \<times> event list" where
  "Failover db agName h =
     Exec db (''ALTER AVAILABILITY GROUP '' @ quoteName agName @ '' FAILOVER'') [] h"

definition SetRoleToSecondary :: "server \<Rightarrow> string \<Rightarrow> event list \<Rightarrow> error option \<times> event list" where
  "SetRoleToSecondary db agName h =
     Exec db (''ALTER AVAILABILITY GROUP '' @ quoteName agName @ '' SET (ROLE = SECONDARY)'') [] h"

text \<open>The statement text is a raw string literal of the source, line breaks and tabs included.\<close>

definition SetRequiredSynchronizedSecondariesToCommit ::
  "server \<Rightarrow> string \<Rightarrow> int \<Rightarrow> event list \<Rightarrow> error option \<times> event list" where
  "SetRequiredSynchronizedSecondariesToCommit db agName newValue h =
     Exec db
       ([CHR 0x0A, CHR 0x09, CHR 0x09] @ ''DECLARE @num_ags INT;''
        @ [CHR 0x0A, CHR 0x09, CHR 0x09]
        @ ''SELECT @num_ags = COUNT(*) FROM sys.availability_groups WHERE name = ? AND required_synchronized_secondaries_to_commit = ?;''
        @ [CHR 0x0A, CHR 0x09, CHR 0x09] @ ''IF @num_ags = 0''
        @ [CHR 0x0A, CHR 0x09, CHR 0x09, CHR 0x09] @ ''ALTER AVAILABILITY GROUP ''
        @ quoteName agName @ '' SET (REQUIRED_SYNCHRONIZED_SECONDARIES_TO_COMMIT = ''
        @ fmt_d newValue @ '')''
        @ [CHR 0x0A, CHR 0x09, CHR 0x09] @ '';'' @ [CHR 0x0A, CHR 0x09])
       [ArgString agName, ArgInt newValue] h"

text \<open>
  The queries of the package scan one row into typed variables; their outcome is the
  reply of the instance, an error (\<open>sql.ErrNoRows\<close> when there is no row) or the
  scanned values.
\<close>

definition GetRole :: "server \<Rightarrow> string \<Rightarrow> event list \<Rightarrow> (error + Role \<times> string) \<times> event list" where
  "GetRole db agName h = (GetRole_reply db h agName, h @ [CallGetRole agName])"

definition GetAvailabilityMode ::
  "server \<Rightarrow> string \<Rightarrow> event list \<Rightarrow> (error + AvailabilityMode \<times> string) \<times> event list" where
  "GetAvailabilityMode db agName h =
     (GetAvailabilityMode_reply db h agName, h @ [CallGetAvailabilityMode agName])"

definition GetSequenceNumber :: "server \<Rightarrow> string \<Rightarrow> event list \<Rightarrow> (error + int) \<times> event list" where
  "GetSequenceNumber db agName h =
     (GetSequenceNumber_reply db h agName, h @ [CallGetSequenceNumber agName])"

definition GetDBFailoverMode :: "server \<Rightarrow> string \<Rightarrow> event list \<Rightarrow> (error + bool) \<times> event list" where
  "GetDBFailoverMode db agName h =
     (GetDBFailoverMode_reply db h agName, h @ [CallGetDBFailoverMode agName])"

definition GetDatabaseStates :: "server \<Rightarrow> string \<Rightarrow> event list \<Rightarrow> (error + string) \<times> event list" where
  "GetDatabaseStates db agName h =
     (GetDatabaseStates_reply db h agName, h @ [CallGetDatabaseStates agName])"

definition GetNumSyncCommitReplicas ::
  "server \<Rightarrow> string \<Rightarrow> event list \<Rightarrow> (error + go_uint) \<times> event list" where
  "GetNumSyncCommitReplicas db agName h =
     (GetNumSyncCommitReplicas_reply db h agName, h @ [CallGetNumSyncCommitReplicas agName])"

section \<open>The AG helper\<close>

definition calculateRequiredSynchronizedSecondariesToCommit :: "go_uint \<Rightarrow> go_uint" where
  "calculateRequiredSynchronizedSecondariesToCommit numReplicas =
     (if numReplicas = 2 then 0 else numReplicas div 2)"

definition setRequiredSynchronizedSecondariesToCommit ::
  "server \<Rightarrow> string \<Rightarrow> go_uint \<Rightarrow> event list \<Rightarrow> error option \<times> event list" where
  "setRequiredSynchronizedSecondariesToCommit db agName requiredSynchronizedSecondariesToCommit h =
     SetRequiredSynchronizedSecondariesToCommit db agName
       (sint (ucast requiredSynchronizedSecondariesToCommit :: 32 word)) h"

definition calculateAndSetRequiredSynchronizedSecondariesToCommit ::
  "server \<Rightarrow> string \<Rightarrow> event list \<Rightarrow> error option \<times> event list" where
  "calculateAndSetRequiredSynchronizedSecondariesToCommit db agName h =
     (case GetNumSyncCommitReplicas db agName h of
        (Inl err, h1) \<Rightarrow> (Some err, h1)
      | (Inr numSyncCommitReplicas, h1) \<Rightarrow>
          setRequiredSynchronizedSecondariesToCommit db agName
            (calculateRequiredSynchronizedSecondariesToCommit numSyncCommitReplicas) h1)"

definition isPrimary :: "server \<Rightarrow> string \<Rightarrow> event list \<Rightarrow> (error + bool) \<times> event list" where
  "isPrimary db agName h =
     (case GetRole db agName h of
        (Inl err, h1) \<Rightarrow> (Inl err, h1)
      | (Inr (role, roleDesc), h1) \<Rightarrow> (Inr (role = RolePRIMARY), h1))"

text \<open>
  The polling loop has no bound in the source: it returns only when a role query fails
  or the predicate holds. A run that polls forever is \<open>None\<close>.
\<close>

partial_function (option) waitUntilRoleSatisfies ::
  "server \<Rightarrow> string \<Rightarrow> (Role \<Rightarrow> bool) \<Rightarrow> event list \<Rightarrow> (error option \<times> event list) option" where
  "waitUntilRoleSatisfies db agName predicate h =
     (case GetRole db agName h of
        (Inl err, h1) \<Rightarrow> Some (Some err, h1)
      | (Inr (role, roleDesc), h1) \<Rightarrow>
          if predicate role then Some (None, h1)
          else waitUntilRoleSatisfies db agName predicate h1)"

text \<open>
  The loop of \<open>waitForDatabasesToBeOnline\<close>, by the number of iterations left and the
  last error seen.
\<close>

fun waitForDatabasesToBeOnline_loop ::
  "server \<Rightarrow> string \<Rightarrow> nat \<Rightarrow> error option \<Rightarrow> event list \<Rightarrow> error option \<times> event list" where
  "waitForDatabasesToBeOnline_loop db agName 0 lastErr h = (lastErr, h)"
| "waitForDatabasesToBeOnline_loop db agName (Suc k) lastErr h =
     (case GetDatabaseStates db agName h of
        (Inl err, h1) \<Rightarrow> waitForDatabasesToBeOnline_loop db agName k (Some err) h1
      | (Inr nonOnlineDatabasesMessage, h1) \<Rightarrow>
          if length nonOnlineDatabasesMessage > 0
          then waitForDatabasesToBeOnline_loop db agName k
                 (Some (errorString nonOnlineDatabasesMessage)) h1
          else (None, h1))"

definition waitForDatabasesToBeOnline ::
  "server \<Rightarrow> string \<Rightarrow> go_uint \<Rightarrow> event list \<Rightarrow> error option \<times> event list" where
  "waitForDatabasesToBeOnline db agName numRetriesForOnlineDatabases h =
     waitForDatabasesToBeOnline_loop db agName (unat numRetriesForOnlineDatabases) None h"

text \<open>
  The action handlers return an OCF exit code (the current value of one of the
  process-wide variables, read from \<open>codes\<close>) and an error.
\<close>

definition monitor ::
  "server \<Rightarrow> OcfExitCodes \<Rightarrow> string \<Rightarrow> go_uint \<Rightarrow> go_uint option \<Rightarrow> event list
   \<Rightarrow> (int \<times> error option) \<times> event list" where
  "monitor db codes agName numRetriesForOnlineDatabases requiredSynchronizedSecondariesToCommit h =
     (case GetRole db agName h of
        (Inl err, h1) \<Rightarrow>
          if err = ErrNoRows then ((OCF_NOT_RUNNING codes, None), h1)
          else ((OCF_ERR_GENERIC codes,
                 Some (errorString (''Could not query replica role: '' @ Error err))), h1)
      | (Inr (role, roleDesc), h1) \<Rightarrow>
          if role = RolePRIMARY then
            (case GetDBFailoverMode db agName h1 of
               (Inl err, h2) \<Rightarrow>
                 ((OCF_ERR_GENERIC codes,
                   Some (errorString (''Could not query DB_FAILOVER setting: '' @ Error err))), h2)
             | (Inr dbFailoverMode, h2) \<Rightarrow>
                 (case (if dbFailoverMode
                        then waitForDatabasesToBeOnline db agName numRetriesForOnlineDatabases h2
                        else (None, h2)) of
                    (Some err, h3) \<Rightarrow>
                      ((OCF_ERR_GENERIC codes,
                        Some (errorString
                          (''Failed while waiting for databases to be online: '' @ Error err))), h3)
                  | (None, h3) \<Rightarrow>
                      (case requiredSynchronizedSecondariesToCommit of
                         None \<Rightarrow>
                           (case calculateAndSetRequiredSynchronizedSecondariesToCommit db agName h3 of
                              (Some err, h4) \<Rightarrow>
                                ((OCF_ERR_GENERIC codes,
                                  Some (errorString
                                    (''Could not calculate and set value of REQUIRED_SYNCHRONIZED_SECONDARIES_TO_COMMIT: ''
                                     @ Error err))), h4)
                            | (None, h4) \<Rightarrow> ((OCF_RUNNING_MASTER codes, None), h4))
                       | Some v \<Rightarrow>
                           (case setRequiredSynchronizedSecondariesToCommit db agName v h3 of
                              (Some err, h4) \<Rightarrow>
                                ((OCF_ERR_GENERIC codes,
                                  Some (errorString
                                    (''Could not set value of REQUIRED_SYNCHRONIZED_SECONDARIES_TO_COMMIT: ''
                                     @ Error err))), h4)
                            | (None, h4) \<Rightarrow> ((OCF_RUNNING_MASTER codes, None), h4)))))
          else if role = RoleRESOLVING then ((OCF_NOT_RUNNING codes, None), h1)
          else ((OCF_SUCCESS codes, None), h1))"

definition start ::
  "server \<Rightarrow> OcfExitCodes \<Rightarrow> string \<Rightarrow> go_uint \<Rightarrow> go_uint option \<Rightarrow> event list
   \<Rightarrow> ((int \<times> error option) \<times> event list) option" where
  "start db codes agName numRetriesForOnlineDatabases requiredSynchronizedSecondariesToCommit h =
     (case SetRoleToSecondary db agName h of
        (ignored, h1) \<Rightarrow>
          (case waitUntilRoleSatisfies db agName (\<lambda>role. role \<noteq> RoleRESOLVING) h1 of
             None \<Rightarrow> None
           | Some (Some err, h2) \<Rightarrow>
               if err = ErrNoRows then
                 Some ((OCF_ERR_ARGS codes,
                        Some (errorString ''sys.availability_groups does not contain a row for the AG. Local replica may not be joined to the AG.'')), h2)
               else
                 Some ((OCF_ERR_GENERIC codes,
                        Some (errorString
                          (''Failed while waiting for local replica to be in SECONDARY role: ''
                           @ Error err))), h2)
           | Some (None, h2) \<Rightarrow>
               Some (monitor db codes agName numRetriesForOnlineDatabases
                       requiredSynchronizedSecondariesToCommit h2)))"

text \<open>\<open>preStart\<close> and \<open>postStop\<close> have the same body in the source.\<close>

definition preStart ::
  "server \<Rightarrow> OcfExitCodes \<Rightarrow> string \<Rightarrow> go_uint option \<Rightarrow> event list
   \<Rightarrow> (int \<times> error option) \<times> event list" where
  "preStart db codes agName requiredSynchronizedSecondariesToCommit h =
     (case isPrimary db agName h of
        (Inl err, h1) \<Rightarrow>
          ((OCF_ERR_GENERIC codes,
            Some (errorString
              (''Could not check if local replica is in PRIMARY role: '' @ Error err))), h1)
      | (Inr False, h1) \<Rightarrow> ((OCF_SUCCESS codes, None), h1)
      | (Inr True, h1) \<Rightarrow>
          (case requiredSynchronizedSecondariesToCommit of
             None \<Rightarrow>
               (case calculateAndSetRequiredSynchronizedSecondariesToCommit db agName h1 of
                  (Some err, h2) \<Rightarrow>
                    ((OCF_ERR_GENERIC codes,
                      Some (errorString
                        (''Could not calculate and set value of REQUIRED_SYNCHRONIZED_SECONDARIES_TO_COMMIT: ''
                         @ Error err))), h2)
                | (None, h2) \<Rightarrow> ((OCF_SUCCESS codes, None), h2))
           | Some v \<Rightarrow>
               (case setRequiredSynchronizedSecondariesToCommit db agName v h1 of
                  (Some err, h2) \<Rightarrow>
                    ((OCF_ERR_GENERIC codes,
                      Some (errorString
                        (''Could not set value of REQUIRED_SYNCHRONIZED_SECONDARIES_TO_COMMIT: ''
                         @ Error err))), h2)
                | (None, h2) \<Rightarrow> ((OCF_SUCCESS codes, None), h2))))"

definition postStop ::
  "server \<Rightarrow> OcfExitCodes \<Rightarrow> string \<Rightarrow> go_uint option \<Rightarrow> event list
   \<Rightarrow> (int \<times> error option) \<times> event list" where
  "postStop db codes agName requiredSynchronizedSecondariesToCommit h =
     (case isPrimary db agName h of
        (Inl err, h1) \<Rightarrow>
          ((OCF_ERR_GENERIC codes,
            Some (errorString
              (''Could not check if local replica is in PRIMARY role: '' @ Error err))), h1)
      | (Inr False, h1) \<Rightarrow> ((OCF_SUCCESS codes, None), h1)
      | (Inr True, h1) \<Rightarrow>
          (case requiredSynchronizedSecondariesToCommit of
             None \<Rightarrow>
               (case calculateAndSetRequiredSynchronizedSecondariesToCommit db agName h1 of
                  (Some err, h2) \<Rightarrow>
                    ((OCF_ERR_GENERIC codes,
                      Some (errorString
                        (''Could not calculate and set value of REQUIRED_SYNCHRONIZED_SECONDARIES_TO_COMMIT: ''
                         @ Error err))), h2)
                | (None, h2) \<Rightarrow> ((OCF_SUCCESS codes, None), h2))
           | Some v \<Rightarrow>
               (case setRequiredSynchronizedSecondariesToCommit db agName v h1 of
                  (Some err, h2) \<Rightarrow>
                    ((OCF_ERR_GENERIC codes,
                      Some (errorString
                        (''Could not set value of REQUIRED_SYNCHRONIZED_SECONDARIES_TO_COMMIT: ''
                         @ Error err))), h2)
                | (None, h2) \<Rightarrow> ((OCF_SUCCESS codes, None), h2))))"

definition prePromote ::
  "server \<Rightarrow> OcfExitCodes \<Rightarrow> string \<Rightarrow> event list \<Rightarrow> (int \<times> error option) \<times> event list" where
  "prePromote db codes agName h =
     (case GetAvailabilityMode db agName h of
        (Inl err, h1) \<Rightarrow>
          ((OCF_ERR_GENERIC codes,
            Some (errorString
              (''Could not query availability mode of local replica: '' @ Error err))), h1)
      | (Inr (availabilityMode, availabilityModeDesc), h1) \<Rightarrow>
          if availabilityMode = AmSYNCHRONOUS_COMMIT \<or> availabilityMode = AmCONFIGURATION_ONLY
          then
            (case GetSequenceNumber db agName h1 of
               (Inl err, h2) \<Rightarrow>
                 ((OCF_ERR_GENERIC codes,
                   Some (errorString
                     (''Could not query sequence number of local replica: '' @ Error err))), h2)
             | (Inr sequenceNumber, h2) \<Rightarrow>
                 ((OCF_SUCCESS codes, None), h2 @ [SequenceNumberOut sequenceNumber]))
          else ((OCF_SUCCESS codes, None), h1 @ [SequenceNumberOut 0]))"

definition demote ::
  "server \<Rightarrow> OcfExitCodes \<Rightarrow> string \<Rightarrow> event list \<Rightarrow> (int \<times> error option) \<times> event list" where
  "demote db codes agName h =
     (case SetRoleToSecondary db agName h of
        (Some err, h1) \<Rightarrow>
          ((OCF_ERR_GENERIC codes,
            Some (errorString
              (''Could not set local replica to SECONDARY role: '' @ Error err))), h1)
      | (None, h1) \<Rightarrow> ((OCF_SUCCESS codes, None), h1))"

subsection \<open>promote\<close>

text \<open>
  \<open>lineRegex.FindStringSubmatch(line)\<close> for the expression
  \<^verbatim>\<open>^name="[^"]+" host="([^"]+)" value="(\d+)"$\<close>. Each run \<open>[^"]+\<close> is followed
  by a quote and \<open>\d+\<close> by a quote and the end of the text, so a match, when there is
  one, takes the longest run each time. The result is the pair of the two groups.
\<close>

definition stripPrefix :: "string \<Rightarrow> string \<Rightarrow> string option" where
  "stripPrefix p s = (if prefix p s then Some (drop (length p) s) else None)"

definition notQuote :: "char \<Rightarrow> bool" where
  "notQuote c = (c \<noteq> CHR 0x22)"

definition FindStringSubmatch :: "string \<Rightarrow> (string \<times> string) option" where
  \<open>FindStringSubmatch line =
     (case stripPrefix ''name="'' line of
        None \<Rightarrow> None
      | Some r1 \<Rightarrow>
          if takeWhile notQuote r1 = [] then None
          else (case stripPrefix ''" host="'' (dropWhile notQuote r1) of
                  None \<Rightarrow> None
                | Some r2 \<Rightarrow>
                    if takeWhile notQuote r2 = [] then None
                    else (case stripPrefix ''" value="'' (dropWhile notQuote r2) of
                            None \<Rightarrow> None
                          | Some r3 \<Rightarrow>
                              if takeWhile isDigit r3 = [] then None
                              else if dropWhile isDigit r3 = ''"''
                              then Some (takeWhile notQuote r2, takeWhile isDigit r3)
                              else None)))\<close>

text \<open>
  \<open>strconv.ParseInt(s, 10, 64)\<close> with the message of its \<open>*NumError\<close>. The quoted
  operand is written between double quotes, which is what \<open>strconv.Quote\<close> gives for
  the digit strings the expression lets through.
\<close>

definition ParseInt :: "string \<Rightarrow> error + int" where
  "ParseInt s =
     (case parseSigned64 s of
        None \<Rightarrow> Inl (errorString (''strconv.ParseInt: parsing '' @ [CHR 0x22] @ s @ [CHR 0x22]
                                  @ '': invalid syntax''))
      | Some (Inl u) \<Rightarrow> Inl (errorString (''strconv.ParseInt: parsing '' @ [CHR 0x22] @ s
                                          @ [CHR 0x22] @ '': value out of range''))
      | Some (Inr v) \<Rightarrow> Inr v)"

text \<open>
  The loop over the lines, on the three variables \<open>maxSequenceNumber\<close>,
  \<open>newMasterSequenceNumber\<close> and \<open>numSequenceNumbers\<close>; \<open>Inl\<close> is the return from
  inside the loop when a value does not parse.
\<close>

fun scanSequenceNumbers ::
  "string \<Rightarrow> string list \<Rightarrow> int \<times> int \<times> go_uint \<Rightarrow> error + (int \<times> int \<times> go_uint)" where
  "scanSequenceNumbers newMaster [] vars = Inr vars"
| "scanSequenceNumbers newMaster (line # lines) (maxSequenceNumber, newMasterSequenceNumber, numSequenceNumbers) =
     (case FindStringSubmatch line of
        None \<Rightarrow>
          scanSequenceNumbers newMaster lines
            (maxSequenceNumber, newMasterSequenceNumber, numSequenceNumbers)
      | Some (host, valueText) \<Rightarrow>
          (case ParseInt valueText of
             Inl err \<Rightarrow> Inl err
           | Inr val \<Rightarrow>
               scanSequenceNumbers newMaster lines
                 (if val > maxSequenceNumber then val else maxSequenceNumber,
                  if host = newMaster then val else newMasterSequenceNumber,
                  numSequenceNumbers + 1)))"

definition promote ::
  "server \<Rightarrow> OcfExitCodes \<Rightarrow> string \<Rightarrow> string \<Rightarrow> string \<Rightarrow> bool \<Rightarrow> go_uint option \<Rightarrow> event list
   \<Rightarrow> ((int \<times> error option) \<times> event list) option" where
  "promote db codes agName sequenceNumbers newMaster skipPreCheck requiredSynchronizedSecondariesToCommit h =
     (case isPrimary db agName h of
        (Inl err, h1) \<Rightarrow>
          Some ((OCF_ERR_GENERIC codes,
                 Some (errorString
                   (''Could not check if local replica is in PRIMARY role: '' @ Error err))), h1)
      | (Inr True, h1) \<Rightarrow> Some ((OCF_SUCCESS codes, None), h1)
      | (Inr False, h1) \<Rightarrow>
          (case (if skipPreCheck then (None, h1)
                 else (case GetAvailabilityMode db agName h1 of
                         (Inl err, h2) \<Rightarrow>
                           (Some (errorString
                              (''Could not query availability mode of local replica: ''
                               @ Error err)), h2)
                       | (Inr (availabilityMode, availabilityModeDesc), h2) \<Rightarrow>
                           if availabilityMode = AmSYNCHRONOUS_COMMIT then (None, h2)
                           else (Some (errorString
                                   (''Local replica has availabilty mode '' @ availabilityModeDesc
                                    @ '' ('' @ fmt_d (uint availabilityMode)
                                    @ ''), so it cannot be promoted to PRIMARY'')), h2))) of
             (Some err, h2) \<Rightarrow> Some ((OCF_ERR_GENERIC codes, Some err), h2)
           | (None, h2) \<Rightarrow>
               (case scanSequenceNumbers newMaster (Split sequenceNumbers (CHR 0x0A)) (0, 0, 0) of
                  Inl err \<Rightarrow>
                    Some ((OCF_ERR_GENERIC codes,
                           Some (errorString
                             (''Could not parse sequence number line: '' @ Error err))), h2)
                | Inr (maxSequenceNumber, newMasterSequenceNumber, numSequenceNumbers) \<Rightarrow>
                    if newMasterSequenceNumber < maxSequenceNumber then
                      Some ((OCF_ERR_GENERIC codes,
                             Some (errorString
                               (''Local replica has sequence number ''
                                @ fmt_d newMasterSequenceNumber
                                @ '' but max sequence number is '' @ fmt_d maxSequenceNumber
                                @ '', so it cannot be promoted''))), h2)
                    else if newMasterSequenceNumber = 0 then
                      Some ((OCF_ERR_GENERIC codes,
                             Some (errorString
                               (''Local replica has sequence number ''
                                @ fmt_d newMasterSequenceNumber
                                @ '', so it cannot be promoted''))), h2)
                    else
                      (case GetNumSyncCommitReplicas db agName h2 of
                         (Inl err, h3) \<Rightarrow>
                           Some ((OCF_ERR_GENERIC codes,
                                  Some (errorString
                                    (''Could not query number of SYNCHRONOUS_COMMIT replicas: ''
                                     @ Error err))), h3)
                       | (Inr numSyncCommitReplicas, h3) \<Rightarrow>
                           let requiredSynchronizedSecondariesToCommitValue =
                                 (case requiredSynchronizedSecondariesToCommit of
                                    None \<Rightarrow> calculateRequiredSynchronizedSecondariesToCommit
                                              numSyncCommitReplicas
                                  | Some v \<Rightarrow> v);
                               requiredNumSequenceNumbers =
                                 numSyncCommitReplicas - requiredSynchronizedSecondariesToCommitValue
                           in if numSequenceNumbers < requiredNumSequenceNumbers then
                                Some ((OCF_ERR_GENERIC codes,
                                       Some (errorString
                                         (''Expected to receive '' @ fmt_d (uint numSequenceNumbers)
                                          @ '' sequence numbers but only received ''
                                          @ fmt_d (uint requiredNumSequenceNumbers)
                                          @ ''. Not enough replicas are online to safely promote the local replica.''))), h3)
                              else
                                (case Failover db agName h3 of
                                   (Some err, h4) \<Rightarrow>
                                     Some ((OCF_FAILED_MASTER codes,
                                            Some (errorString
                                              (''Could not promote local replica to PRIMARY role: ''
                                               @ Error err))), h4)
                                 | (None, h4) \<Rightarrow>
                                     (case waitUntilRoleSatisfies db agName
                                             (\<lambda>role. role = RolePRIMARY) h4 of
                                        None \<Rightarrow> None
                                      | Some (Some err, h5) \<Rightarrow>
                                          Some ((OCF_FAILED_MASTER codes,
                                                 Some (errorString
                                                   (''Failed while waiting for local replica to be in PRIMARY role: ''
                                                    @ Error err))), h5)
                                      | Some (None, h5) \<Rightarrow>
                                          (case setRequiredSynchronizedSecondariesToCommit db agName
                                                  requiredSynchronizedSecondariesToCommitValue h5 of
                                             (Some err, h6) \<Rightarrow>
                                               Some ((OCF_ERR_GENERIC codes,
                                                      Some (errorString
                                                        (''Could not set value of REQUIRED_SYNCHRONIZED_SECONDARIES_TO_COMMIT: ''
                                                         @ Error err))), h6)
                                           | (None, h6) \<Rightarrow>
                                               Some ((OCF_SUCCESS codes, None), h6))))))))"

subsection \<open>doMain and main\<close>

text \<open>The variables the flag package fills in, after \<open>flag.Parse()\<close>.\<close>

record flags =
  hostname :: string
  sqlPort :: go_uint
  agName :: string
  credentialsFile :: string
  applicationName :: string
  rawConnectionTimeout :: int
  rawHealthThreshold :: go_uint
  action :: string
  numRetriesForOnlineDatabases :: go_uint
  skipPreCheck :: bool
  sequenceNumbers :: string
  newMaster :: string
  requiredSynchronizedSecondariesToCommitArg :: int

text \<open>
  What surrounds the process: the environment variables, what reading the credentials file
  gives (the error or the two lines), the network, and the decisions that drive the
  connection attempt.
\<close>

record world =
  environment :: environ
  ReadCredentialsFile_result :: "string \<Rightarrow> error + (string \<times> string)"
  network :: dialer
  decisions :: "tick list"

text \<open>
  \<open>doMain\<close> ends by \<open>os.Exit\<close> inside \<open>OcfExit\<close>, by returning an error, or by a
  panic when the connection it uses is nil. The deferred \<open>db.Close()\<close> runs only when
  \<open>doMain\<close> returns. The process-wide exit codes start from zero.
\<close>

definition doMain :: "flags \<Rightarrow> world \<Rightarrow> (outcome \<times> event list) option" where
  "doMain f w =
     (if hostname f = [] then
        Some (Returned (Some (errorString ''a valid hostname must be specified using --hostname'')), [])
      else if sqlPort f = 0 then
        Some (Returned (Some (errorString ''a valid port number must be specified using --port'')), [])
      else if agName f = [] then
        Some (Returned (Some (errorString ''a valid AG name must be specified using --ag-name'')), [])
      else if credentialsFile f = [] then
        Some (Returned (Some (errorString ''a valid path to a credentials file must be specified using --credentials-file'')), [])
      else if applicationName f = [] then
        Some (Returned (Some (errorString ''a valid application name must be specified using --application-name'')), [])
      else if action f = [] then
        Some (Returned (Some (errorString ''a valid action must be specified using --action'')), [])
      else if action f = ''promote'' \<and> newMaster f = [] then
        Some (Returned (Some (errorString ''a valid hostname must be specified using --new-master'')), [])
      else
        (case ImportOcfExitCodes (environment w) initialOcfExitCodes of
           (Some err, codes) \<Rightarrow> Some (Returned (Some err), [])
         | (None, codes) \<Rightarrow>
             if action f = ''stop'' then Some (OcfExit (OCF_SUCCESS codes) None, [])
             else if requiredSynchronizedSecondariesToCommitArg f \<noteq> - 1
                     \<and> (requiredSynchronizedSecondariesToCommitArg f < 0
                          \<or> requiredSynchronizedSecondariesToCommitArg f > 2147483647) then
               Some (OcfExit (OCF_ERR_CONFIGURED codes)
                       (Some (errorString ''--required-synchronized-secondaries-to-commit must be set to a valid integer between 0 and one less than the number of SYNCHRONOUS_COMMIT replicas (both inclusive)'')), [])
             else
               let connectionTimeout = wrap_int64 (rawConnectionTimeout f * 1000000000);
                   healthThreshold = rawHealthThreshold f;
                   requiredSynchronizedSecondariesToCommit =
                     (if requiredSynchronizedSecondariesToCommitArg f \<noteq> - 1
                      then Some (word_of_int (requiredSynchronizedSecondariesToCommitArg f))
                      else None)
               in
               (case ReadCredentialsFile_result w (credentialsFile f) of
                  Inl err \<Rightarrow>
                    Some (OcfExit (OCF_ERR_ARGS codes)
                            (Some (errorString (''Could not read credentials file: '' @ Error err))),
                          [CallReadCredentialsFile (credentialsFile f)])
                | Inr (sqlUsername, sqlPassword) \<Rightarrow>
                    (case OpenDBWithHealthCheck (network w) (hostname f) (sqlPort f) sqlUsername
                            sqlPassword (applicationName f) connectionTimeout (decisions w)
                            [CallReadCredentialsFile (credentialsFile f)] of
                       None \<Rightarrow> None
                     | Some ((db, err), h1) \<Rightarrow>
                         (case (case err of
                                  None \<Rightarrow> None
                                | Some (ServerUnhealthyError rawValue inner) \<Rightarrow>
                                    if rawValue \<le> healthThreshold then
                                      Some (OcfExit (OCF_ERR_GENERIC codes)
                                              (Some (errorString
                                                 (''Instance health status '' @ fmt_d (uint rawValue)
                                                  @ '' is at or below the threshold value of ''
                                                  @ fmt_d (uint healthThreshold)))))
                                    else None
                                | Some other \<Rightarrow> Some (Returned (Some other))) of
                            Some ending \<Rightarrow> Some (ending, h1)
                          | None \<Rightarrow>
                              (case db of
                                 None \<Rightarrow> Some (NilPanic, h1)
                               | Some db \<Rightarrow>
                                   (case Exec db ''EXEC sp_set_session_context @key = N'external_cluster', @value = N'yes', @read_only = 1'' [] h1 of
                                      (Some err, h2) \<Rightarrow>
                                        Some (OcfExit (OCF_ERR_GENERIC codes)
                                                (Some (errorString
                                                   (''Failed to set session context: '' @ Error err))),
                                              h2)
                                    | (None, h2) \<Rightarrow>
                                        if action f = ''start'' then
                                          (case start db codes (agName f)
                                                  (numRetriesForOnlineDatabases f)
                                                  requiredSynchronizedSecondariesToCommit h2 of
                                             None \<Rightarrow> None
                                           | Some ((ocfExitCode, err), h3) \<Rightarrow>
                                               Some (OcfExit ocfExitCode err, h3))
                                        else if action f = ''monitor'' then
                                          (case monitor db codes (agName f)
                                                  (numRetriesForOnlineDatabases f)
                                                  requiredSynchronizedSecondariesToCommit h2 of
                                             ((ocfExitCode, err), h3) \<Rightarrow>
                                               Some (OcfExit ocfExitCode err, h3))
                                        else if action f = ''pre-start'' then
                                          (case preStart db codes (agName f)
                                                  requiredSynchronizedSecondariesToCommit h2 of
                                             ((ocfExitCode, err), h3) \<Rightarrow>
                                               Some (OcfExit ocfExitCode err, h3))
                                        else if action f = ''post-stop'' then
                                          (case postStop db codes (agName f)
                                                  requiredSynchronizedSecondariesToCommit h2 of
                                             ((ocfExitCode, err), h3) \<Rightarrow>
                                               Some (OcfExit ocfExitCode err, h3))
                                        else if action f = ''pre-promote'' then
                                          (case prePromote db codes (agName f) h2 of
                                             ((ocfExitCode, err), h3) \<Rightarrow>
                                               Some (OcfExit ocfExitCode err, h3))
                                        else if action f = ''promote'' then
                                          (case promote db codes (agName f) (sequenceNumbers f)
                                                  (newMaster f) (skipPreCheck f)
                                                  requiredSynchronizedSecondariesToCommit h2 of
                                             None \<Rightarrow> None
                                           | Some ((ocfExitCode, err), h3) \<Rightarrow>
                                               Some (OcfExit ocfExitCode err, h3))
                                        else if action f = ''demote'' then
                                          (case demote db codes (agName f) h2 of
                                             ((ocfExitCode, err), h3) \<Rightarrow>
                                               Some (OcfExit ocfExitCode err, h3))
                                        else
                                          Some (Returned (Some (errorString
                                                  (''unknown value for --action '' @ action f))),
                                                h2 @ [CallClose]))))))))"

definition main :: "flags \<Rightarrow> world \<Rightarrow> (outcome \<times> event list) option" where
  "main f w =
     (case doMain f w of
        None \<Rightarrow> None
      | Some (Returned (Some err), h) \<Rightarrow>
          Some (Exit 1 (Some (errorString (''Unexpected error: '' @ Error err))), h)
      | Some (Returned None, h) \<Rightarrow> Some (OsExit 0 [], h)
      | Some (ending, h) \<Rightarrow> Some (ending, h))"

section \<open>Vocabulary of the properties\<close>

text \<open>
  The lines of a sequence-numbers text that the expression matches, each with its host and
  the number its digits denote; and the value recorded for a host: that of the last
  matching line that names it, 0 when none does.
\<close>

definition matchedLines :: "string \<Rightarrow> (string \<times> nat) list" where
  "matchedLines text =
     map (\<lambda>(host, valueText). (host, decimal valueText))
       (List.map_filter FindStringSubmatch (Split text (CHR 0x0A)))"

definition recordedValue :: "string \<Rightarrow> (string \<times> nat) list \<Rightarrow> nat" where
  "recordedValue host ms =
     (case filter (\<lambda>(host', v). host' = host) ms of [] \<Rightarrow> 0 | x # xs \<Rightarrow> snd (last (x # xs)))"

text \<open>
  An instance that always gives the same answers, for running the model on concrete
  inputs: every statement succeeds, \<open>sp_server_diagnostics\<close> returns the given rows, and
  the replica has the given role and availability mode in a group with the given number
  of SYNCHRONOUS_COMMIT replicas.
\<close>

definition scriptedServer ::
  "(error + diagnosticsRow) list \<Rightarrow> Role \<Rightarrow> AvailabilityMode \<Rightarrow> go_uint \<Rightarrow> server" where
  "scriptedServer rows role availabilityMode numSyncCommitReplicas =
     \<lparr>Exec_reply = (\<lambda>h statement args. None),
      sp_server_diagnostics_reply = (\<lambda>h. Inr (rows, None)),
      GetRole_reply = (\<lambda>h ag. Inr (role, [])),
      GetAvailabilityMode_reply = (\<lambda>h ag. Inr (availabilityMode, [])),
      GetSequenceNumber_reply = (\<lambda>h ag. Inr 1),
      GetDBFailoverMode_reply = (\<lambda>h ag. Inr False),
      GetDatabaseStates_reply = (\<lambda>h ag. Inr []),
      GetNumSyncCommitReplicas_reply = (\<lambda>h ag. Inr numSyncCommitReplicas)\<rparr>"

text \<open>
  The rows of a healthy instance, the flags of an invocation with a given action,
  sequence-numbers text and override, and surroundings in which the credentials file
  reads, the first connection attempt reaches the given instance and the main flow receives
  the connection at once.
\<close>

definition healthyRows :: "(error + diagnosticsRow) list" where
  "healthyRows =
     [Inr \<lparr>creationTime = [], componentType = [], componentName = ''system'',
           state = 1, stateDesc = [], data = []\<rparr>,
      Inr \<lparr>creationTime = [], componentType = [], componentName = ''resource'',
           state = 1, stateDesc = [], data = []\<rparr>,
      Inr \<lparr>creationTime = [], componentType = [], componentName = ''query_processing'',
           state = 1, stateDesc = [], data = []\<rparr>]"

definition scriptedFlags :: "string \<Rightarrow> string \<Rightarrow> int \<Rightarrow> flags" where
  "scriptedFlags act text override =
     \<lparr>hostname = ''localhost'', sqlPort = 1433, agName = ''ag1'', credentialsFile = ''cred'',
      applicationName = ''app'', rawConnectionTimeout = 30, rawHealthThreshold = 3,
      action = act, numRetriesForOnlineDatabases = 60, skipPreCheck = False,
      sequenceNumbers = text, newMaster = ''B'',
      requiredSynchronizedSecondariesToCommitArg = override\<rparr>"

definition scriptedWorld :: "environ \<Rightarrow> server \<Rightarrow> world" where
  "scriptedWorld env db =
     \<lparr>environment = env,
      ReadCredentialsFile_result = (\<lambda>file. Inr (''sa'', ''pw'')),
      network = (\<lambda>host port user pass app timeout i. Inr db),
      decisions = [ConnectorRuns, MainReceivesDb]\<rparr>"

section \<open>Properties\<close>

subsection \<open>Name quoting\<close>

lemma Replace_bracket: "Replace s '']'' '']]'' = doubledBrackets_spec s"
  by (induction s) (auto simp: doubledBrackets_spec_def)

lemma doubledBrackets_inj: "doubledBrackets_spec s = doubledBrackets_spec t \<Longrightarrow> s = t"
proof (induction s arbitrary: t)
  case Nil
  then show ?case by (cases t) (auto simp: doubledBrackets_spec_def split: if_splits)
next
  case (Cons x xs)
  show ?case
  proof (cases t)
    case Nil
    with Cons.prems show ?thesis by (auto simp: doubledBrackets_spec_def split: if_splits)
  next
    case (Cons y ys)
    with Cons.prems have "x = y \<and> doubledBrackets_spec xs = doubledBrackets_spec ys"
      by (auto simp: doubledBrackets_spec_def split: if_splits)
    with Cons.IH Cons show ?thesis by blast
  qed
qed

text \<open>
  C8. For every string \<open>s\<close>, \<open>quoteName s\<close> is \<open>[\<close>, then \<open>s\<close> with every \<open>]\<close>
  replaced by \<open>]]\<close>, then \<open>]\<close>; and \<open>quoteName\<close> is injective.
\<close>

theorem quoteName_spec:
  "quoteName s = ''['' @ doubledBrackets_spec s @ '']''
   \<and> (quoteName s = quoteName t \<longrightarrow> s = t)"
  by (auto simp: quoteName_def Replace_bracket dest: doubledBrackets_inj)

theorem quoteName_spec_witness:
  "quoteName ''a]b'' = ''[a]]b]'' \<and> quoteName ''a]b'' \<noteq> quoteName ''a]]b''"
  using quoteName_spec [of "''a]b''" "''a]]b''"] quoteName_spec [of "''a]]b''" "[]"]
  by (simp add: doubledBrackets_spec_def)

subsection \<open>REQUIRED_SYNCHRONIZED_SECONDARIES_TO_COMMIT\<close>

text \<open>
  C3. For every value \<open>numSync\<close> of the unsigned argument, the computed value is 0 when
  \<open>numSync\<close> is 2 and the integer quotient of \<open>numSync\<close> by 2 otherwise; in particular
  1, 2, 3, 4, 5, 6, 7 give 0, 0, 1, 2, 2, 3, 3.
\<close>

theorem rsstc_formula:
  "unat (calculateRequiredSynchronizedSecondariesToCommit numSync)
     = (if unat numSync = 2 then 0 else unat numSync div 2)
   \<and> calculateRequiredSynchronizedSecondariesToCommit 1 = 0
   \<and> calculateRequiredSynchronizedSecondariesToCommit 2 = 0
   \<and> calculateRequiredSynchronizedSecondariesToCommit 3 = 1
   \<and> calculateRequiredSynchronizedSecondariesToCommit 4 = 2
   \<and> calculateRequiredSynchronizedSecondariesToCommit 5 = 2
   \<and> calculateRequiredSynchronizedSecondariesToCommit 6 = 3
   \<and> calculateRequiredSynchronizedSecondariesToCommit 7 = 3"
proof -
  have "unat numSync = 2 \<longleftrightarrow> numSync = 2"
    by (simp add: word_unat_eq_iff)
  then show ?thesis
    by (simp add: calculateRequiredSynchronizedSecondariesToCommit_def unat_div)
qed

theorem rsstc_formula_witness:
  "unat (calculateRequiredSynchronizedSecondariesToCommit 9) = 4
   \<and> unat (calculateRequiredSynchronizedSecondariesToCommit 2) = 0"
  using rsstc_formula [of 9] rsstc_formula [of 2] by simp

subsection \<open>Diagnose\<close>

text \<open>
  C7. For every triple of booleans (System, Resource, QueryProcessing), \<open>Diagnose\<close>
  returns no error if and only if all three are true; otherwise it returns a
  \<open>ServerUnhealthyError\<close> for the first false component in the order system, resource,
  query processing, with severity \<open>ServerCriticalError\<close>, \<open>ServerModerateError\<close>,
  \<open>ServerAnyQualifiedError\<close> respectively, whose inner message is
  \<open>sp_server_diagnostics result indicates ... error\<close> with the words \<open>system\<close>,
  \<open>resource\<close>, \<open>query processing\<close> for the component.
\<close>

theorem diagnose_priority:
  "(Diagnose \<lparr>System = s, Resource = r, QueryProcessing = q\<rparr> = None \<longleftrightarrow> s \<and> r \<and> q)
   \<and> (\<not> s \<longrightarrow> Diagnose \<lparr>System = s, Resource = r, QueryProcessing = q\<rparr>
          = Some (ServerUnhealthyError ServerCriticalError
                    (errorString ''sp_server_diagnostics result indicates system error'')))
   \<and> (s \<and> \<not> r \<longrightarrow> Diagnose \<lparr>System = s, Resource = r, QueryProcessing = q\<rparr>
          = Some (ServerUnhealthyError ServerModerateError
                    (errorString ''sp_server_diagnostics result indicates resource error'')))
   \<and> (s \<and> r \<and> \<not> q \<longrightarrow> Diagnose \<lparr>System = s, Resource = r, QueryProcessing = q\<rparr>
          = Some (ServerUnhealthyError ServerAnyQualifiedError
                    (errorString ''sp_server_diagnostics result indicates query processing error'')))"
  by (simp add: Diagnose_def)

theorem diagnose_priority_witness:
  "Diagnose \<lparr>System = True, Resource = False, QueryProcessing = False\<rparr>
     = Some (ServerUnhealthyError 4
               (errorString ''sp_server_diagnostics result indicates resource error''))
   \<and> Diagnose \<lparr>System = False, Resource = False, QueryProcessing = True\<rparr>
     = Some (ServerUnhealthyError 3
               (errorString ''sp_server_diagnostics result indicates system error''))
   \<and> Diagnose \<lparr>System = True, Resource = True, QueryProcessing = False\<rparr>
     = Some (ServerUnhealthyError 5
               (errorString ''sp_server_diagnostics result indicates query processing error''))
   \<and> Diagnose \<lparr>System = True, Resource = True, QueryProcessing = True\<rparr> = None"
  using diagnose_priority [of True False False] diagnose_priority [of False False True]
    diagnose_priority [of True True False] diagnose_priority [of True True True]
  by (simp add: ServerCriticalError_def ServerModerateError_def ServerAnyQualifiedError_def)

subsection \<open>ImportOcfExitCodes\<close>

lemma importOcfExitCode_ok:
  "Atoi (Getenv env name) = Some v \<Longrightarrow> importOcfExitCode env name = (v, None)"
  by (simp add: importOcfExitCode_def)

lemma importOcfExitCode_parsed:
  "Atoi (Getenv env name) \<noteq> None
   \<Longrightarrow> importOcfExitCode env name = (the (Atoi (Getenv env name)), None)"
  by (auto simp: importOcfExitCode_def)

lemma importOcfExitCode_bad:
  "Atoi (Getenv env name) = None \<Longrightarrow>
   importOcfExitCode env name
     = (0, Some (errorString (name @ '' is set to an invalid value ['' @ Getenv env name @ '']'')))"
  by (simp add: importOcfExitCode_def)

lemma ImportOcfExitCodes_all_parsed:
  assumes "Atoi (Getenv env ''OCF_ERR_CONFIGURED'') = Some c1"
    and "Atoi (Getenv env ''OCF_ERR_GENERIC'') = Some c2"
    and "Atoi (Getenv env ''OCF_ERR_ARGS'') = Some c3"
    and "Atoi (Getenv env ''OCF_ERR_PERM'') = Some c4"
    and "Atoi (Getenv env ''OCF_ERR_UNIMPLEMENTED'') = Some c5"
    and "Atoi (Getenv env ''OCF_FAILED_MASTER'') = Some c6"
    and "Atoi (Getenv env ''OCF_NOT_RUNNING'') = Some c7"
    and "Atoi (Getenv env ''OCF_RUNNING_MASTER'') = Some c8"
    and "Atoi (Getenv env ''OCF_SUCCESS'') = Some c9"
  shows "ImportOcfExitCodes env g
          = (None, \<lparr>OCF_ERR_CONFIGURED = c1, OCF_ERR_GENERIC = c2, OCF_ERR_ARGS = c3,
                    OCF_ERR_PERM = c4, OCF_ERR_UNIMPLEMENTED = c5, OCF_FAILED_MASTER = c6,
                    OCF_NOT_RUNNING = c7, OCF_RUNNING_MASTER = c8, OCF_SUCCESS = c9\<rparr>)"
proof -
  have "ImportOcfExitCodes env g
          = (None, g\<lparr>OCF_ERR_CONFIGURED := c1, OCF_ERR_GENERIC := c2, OCF_ERR_ARGS := c3,
                    OCF_ERR_PERM := c4, OCF_ERR_UNIMPLEMENTED := c5, OCF_FAILED_MASTER := c6,
                    OCF_NOT_RUNNING := c7, OCF_RUNNING_MASTER := c8, OCF_SUCCESS := c9\<rparr>)"
    unfolding ImportOcfExitCodes_def
    by (simp only: assms [THEN importOcfExitCode_ok] Let_def prod.case simp_thms if_False)
  then show ?thesis by (cases g) simp
qed

lemma ImportOcfExitCodes_first_bad:
  assumes bad: "find (\<lambda>name. Atoi (Getenv env name) = None) importOrder = Some bad"
  shows "fst (ImportOcfExitCodes env g)
            = Some (errorString (bad @ '' is set to an invalid value ['' @ Getenv env bad @ '']''))"
proof -
  let ?P = "\<lambda>name. Atoi (Getenv env name) = None"
  note unfolded = ImportOcfExitCodes_def importOcfExitCode_bad importOcfExitCode_parsed Let_def
    prod.case simp_thms if_True if_False option.distinct
  consider
      (1) "?P ''OCF_ERR_CONFIGURED''"
    | (2) "\<not> ?P ''OCF_ERR_CONFIGURED''" "?P ''OCF_ERR_GENERIC''"
    | (3) "\<not> ?P ''OCF_ERR_CONFIGURED''" "\<not> ?P ''OCF_ERR_GENERIC''" "?P ''OCF_ERR_ARGS''"
    | (4) "\<not> ?P ''OCF_ERR_CONFIGURED''" "\<not> ?P ''OCF_ERR_GENERIC''" "\<not> ?P ''OCF_ERR_ARGS''" "?P ''OCF_ERR_PERM''"
    | (5) "\<not> ?P ''OCF_ERR_CONFIGURED''" "\<not> ?P ''OCF_ERR_GENERIC''" "\<not> ?P ''OCF_ERR_ARGS''" "\<not> ?P ''OCF_ERR_PERM''" "?P ''OCF_ERR_UNIMPLEMENTED''"
    | (6) "\<not> ?P ''OCF_ERR_CONFIGURED''" "\<not> ?P ''OCF_ERR_GENERIC''" "\<not> ?P ''OCF_ERR_ARGS''" "\<not> ?P ''OCF_ERR_PERM''" "\<not> ?P ''OCF_ERR_UNIMPLEMENTED''" "?P ''OCF_FAILED_MASTER''"
    | (7) "\<not> ?P ''OCF_ERR_CONFIGURED''" "\<not> ?P ''OCF_ERR_GENERIC''" "\<not> ?P ''OCF_ERR_ARGS''" "\<not> ?P ''OCF_ERR_PERM''" "\<not> ?P ''OCF_ERR_UNIMPLEMENTED''" "\<not> ?P ''OCF_FAILED_MASTER''" "?P ''OCF_NOT_RUNNING''"
    | (8) "\<not> ?P ''OCF_ERR_CONFIGURED''" "\<not> ?P ''OCF_ERR_GENERIC''" "\<not> ?P ''OCF_ERR_ARGS''" "\<not> ?P ''OCF_ERR_PERM''" "\<not> ?P ''OCF_ERR_UNIMPLEMENTED''" "\<not> ?P ''OCF_FAILED_MASTER''" "\<not> ?P ''OCF_NOT_RUNNING''" "?P ''OCF_RUNNING_MASTER''"
    | (9) "\<not> ?P ''OCF_ERR_CONFIGURED''" "\<not> ?P ''OCF_ERR_GENERIC''" "\<not> ?P ''OCF_ERR_ARGS''" "\<not> ?P ''OCF_ERR_PERM''" "\<not> ?P ''OCF_ERR_UNIMPLEMENTED''" "\<not> ?P ''OCF_FAILED_MASTER''" "\<not> ?P ''OCF_NOT_RUNNING''" "\<not> ?P ''OCF_RUNNING_MASTER''" "?P ''OCF_SUCCESS''"
    | (10) "\<not> ?P ''OCF_ERR_CONFIGURED''" "\<not> ?P ''OCF_ERR_GENERIC''" "\<not> ?P ''OCF_ERR_ARGS''" "\<not> ?P ''OCF_ERR_PERM''" "\<not> ?P ''OCF_ERR_UNIMPLEMENTED''" "\<not> ?P ''OCF_FAILED_MASTER''" "\<not> ?P ''OCF_NOT_RUNNING''" "\<not> ?P ''OCF_RUNNING_MASTER''" "\<not> ?P ''OCF_SUCCESS''"
    by argo
  then show ?thesis
  proof cases
    case 1
    with bad have "bad = ''OCF_ERR_CONFIGURED''" by (simp add: importOrder_def)
    with 1 show ?thesis by (simp only: unfolded fst_conv)
  next
    case 2
    with bad have "bad = ''OCF_ERR_GENERIC''" by (simp add: importOrder_def)
    with 2 show ?thesis by (simp only: unfolded fst_conv)
  next
    case 3
    with bad have "bad = ''OCF_ERR_ARGS''" by (simp add: importOrder_def)
    with 3 show ?thesis by (simp only: unfolded fst_conv)
  next
    case 4
    with bad have "bad = ''OCF_ERR_PERM''" by (simp add: importOrder_def)
    with 4 show ?thesis by (simp only: unfolded fst_conv)
  next
    case 5
    with bad have "bad = ''OCF_ERR_UNIMPLEMENTED''" by (simp add: importOrder_def)
    with 5 show ?thesis by (simp only: unfolded fst_conv)
  next
    case 6
    with bad have "bad = ''OCF_FAILED_MASTER''" by (simp add: importOrder_def)
    with 6 show ?thesis by (simp only: unfolded fst_conv)
  next
    case 7
    with bad have "bad = ''OCF_NOT_RUNNING''" by (simp add: importOrder_def)
    with 7 show ?thesis by (simp only: unfolded fst_conv)
  next
    case 8
    with bad have "bad = ''OCF_RUNNING_MASTER''" by (simp add: importOrder_def)
    with 8 show ?thesis by (simp only: unfolded fst_conv)
  next
    case 9
    with bad have "bad = ''OCF_SUCCESS''" by (simp add: importOrder_def)
    with 9 show ?thesis by (simp only: unfolded fst_conv)
  next
    case 10
    with bad show ?thesis by (simp add: importOrder_def)
  qed
qed


text \<open>
  C5. If each of the nine variables parses as a decimal integer, \<open>ImportOcfExitCodes\<close>
  returns no error and leaves in each of the nine process-wide variables the parsed value.
  Otherwise it returns the error \<open><NAME> is set to an invalid value [<raw>]\<close>, where
  \<open>NAME\<close> is the first name, in the order of import, whose value in the environment does
  not parse (the empty string when the variable is unset). The third part says that these
  two cases are all there is.
\<close>

theorem ImportOcfExitCodes_spec:
  "(Atoi (Getenv env ''OCF_ERR_CONFIGURED'') = Some c1
    \<and> Atoi (Getenv env ''OCF_ERR_GENERIC'') = Some c2
    \<and> Atoi (Getenv env ''OCF_ERR_ARGS'') = Some c3
    \<and> Atoi (Getenv env ''OCF_ERR_PERM'') = Some c4
    \<and> Atoi (Getenv env ''OCF_ERR_UNIMPLEMENTED'') = Some c5
    \<and> Atoi (Getenv env ''OCF_FAILED_MASTER'') = Some c6
    \<and> Atoi (Getenv env ''OCF_NOT_RUNNING'') = Some c7
    \<and> Atoi (Getenv env ''OCF_RUNNING_MASTER'') = Some c8
    \<and> Atoi (Getenv env ''OCF_SUCCESS'') = Some c9
    \<longrightarrow> ImportOcfExitCodes env g
          = (None, \<lparr>OCF_ERR_CONFIGURED = c1, OCF_ERR_GENERIC = c2, OCF_ERR_ARGS = c3,
                    OCF_ERR_PERM = c4, OCF_ERR_UNIMPLEMENTED = c5, OCF_FAILED_MASTER = c6,
                    OCF_NOT_RUNNING = c7, OCF_RUNNING_MASTER = c8, OCF_SUCCESS = c9\<rparr>))
   \<and> (find (\<lambda>name. Atoi (Getenv env name) = None) importOrder = Some bad
      \<longrightarrow> fst (ImportOcfExitCodes env g)
            = Some (errorString (bad @ '' is set to an invalid value ['' @ Getenv env bad @ '']'')))
   \<and> (find (\<lambda>name. Atoi (Getenv env name) = None) importOrder = None
      \<longleftrightarrow> list_all (\<lambda>name. \<exists>v. Atoi (Getenv env name) = Some v) importOrder)"
proof (intro conjI impI)
  show "find (\<lambda>name. Atoi (Getenv env name) = None) importOrder = None
      \<longleftrightarrow> list_all (\<lambda>name. \<exists>v. Atoi (Getenv env name) = Some v) importOrder"
    by (auto simp: find_None_iff list_all_iff)
next
  assume "find (\<lambda>name. Atoi (Getenv env name) = None) importOrder = Some bad"
  then show "fst (ImportOcfExitCodes env g)
      = Some (errorString (bad @ '' is set to an invalid value ['' @ Getenv env bad @ '']''))"
    by (rule ImportOcfExitCodes_first_bad)
qed (elim conjE, rule ImportOcfExitCodes_all_parsed; assumption)

theorem ImportOcfExitCodes_spec_witness:
  "ImportOcfExitCodes
       (\<lambda>name. if name = ''OCF_SUCCESS'' then Some ''1'' else Some ''7'') initialOcfExitCodes
     = (None, \<lparr>OCF_ERR_CONFIGURED = 7, OCF_ERR_GENERIC = 7, OCF_ERR_ARGS = 7, OCF_ERR_PERM = 7,
               OCF_ERR_UNIMPLEMENTED = 7, OCF_FAILED_MASTER = 7, OCF_NOT_RUNNING = 7,
               OCF_RUNNING_MASTER = 7, OCF_SUCCESS = 1\<rparr>)
   \<and> fst (ImportOcfExitCodes
       (\<lambda>name. if name = ''OCF_SUCCESS'' then Some ''A'' else Some ''7'') initialOcfExitCodes)
     = Some (errorString ''OCF_SUCCESS is set to an invalid value [A]'')
   \<and> fst (ImportOcfExitCodes (\<lambda>name. None) initialOcfExitCodes)
     = Some (errorString ''OCF_ERR_CONFIGURED is set to an invalid value []'')"
proof -
  let ?env = "\<lambda>name. if name = ''OCF_SUCCESS'' then Some ''1'' else Some ''7''"
  let ?bad = "\<lambda>name. if name = ''OCF_SUCCESS'' then Some ''A'' else Some ''7''"
  let ?unset = "\<lambda>name :: string. None :: string option"
  note eval = Getenv_def Atoi_def parseSigned64_def decimal_def digitVal_def isDigit_def
  have parsed:
    "Atoi (Getenv ?env ''OCF_ERR_CONFIGURED'') = Some 7
     \<and> Atoi (Getenv ?env ''OCF_ERR_GENERIC'') = Some 7
     \<and> Atoi (Getenv ?env ''OCF_ERR_ARGS'') = Some 7
     \<and> Atoi (Getenv ?env ''OCF_ERR_PERM'') = Some 7
     \<and> Atoi (Getenv ?env ''OCF_ERR_UNIMPLEMENTED'') = Some 7
     \<and> Atoi (Getenv ?env ''OCF_FAILED_MASTER'') = Some 7
     \<and> Atoi (Getenv ?env ''OCF_NOT_RUNNING'') = Some 7
     \<and> Atoi (Getenv ?env ''OCF_RUNNING_MASTER'') = Some 7
     \<and> Atoi (Getenv ?env ''OCF_SUCCESS'') = Some 1"
    by (simp add: eval)
  have first: "find (\<lambda>name. Atoi (Getenv ?bad name) = None) importOrder = Some ''OCF_SUCCESS''"
    by (simp add: importOrder_def eval)
  have raw: "Getenv ?bad ''OCF_SUCCESS'' = ''A''"
    by (simp add: Getenv_def)
  have none: "find (\<lambda>name. Atoi (Getenv ?unset name) = None) importOrder
                = Some ''OCF_ERR_CONFIGURED''"
    by (simp add: importOrder_def eval)
  have empty: "Getenv ?unset ''OCF_ERR_CONFIGURED'' = []"
    by (simp add: Getenv_def)
  have "fst (ImportOcfExitCodes ?bad initialOcfExitCodes)
     = Some (errorString (''OCF_SUCCESS'' @ '' is set to an invalid value [''
                          @ Getenv ?bad ''OCF_SUCCESS'' @ '']''))"
    by (rule ImportOcfExitCodes_spec [THEN conjunct2, THEN conjunct1, THEN mp, OF first])
  then have 2: "fst (ImportOcfExitCodes ?bad initialOcfExitCodes)
     = Some (errorString ''OCF_SUCCESS is set to an invalid value [A]'')"
    by (simp only: raw append.simps)
  have "fst (ImportOcfExitCodes ?unset initialOcfExitCodes)
     = Some (errorString (''OCF_ERR_CONFIGURED'' @ '' is set to an invalid value [''
                          @ Getenv ?unset ''OCF_ERR_CONFIGURED'' @ '']''))"
    by (rule ImportOcfExitCodes_spec [THEN conjunct2, THEN conjunct1, THEN mp, OF none])
  then have 3: "fst (ImportOcfExitCodes ?unset initialOcfExitCodes)
     = Some (errorString ''OCF_ERR_CONFIGURED is set to an invalid value []'')"
    by (simp only: empty append.simps)
  from ImportOcfExitCodes_spec [THEN conjunct1, THEN mp, OF parsed] 2 3
  show ?thesis by (intro conjI)
qed

subsection \<open>QueryDiagnostics\<close>

lemma scanDiagnostics_System:
  "\<forall>r. Inr r \<in> set rows \<longrightarrow> componentName r \<noteq> ''system''
   \<Longrightarrow> System (scanDiagnostics rows d) = System d"
  by (induction rows d rule: scanDiagnostics.induct) auto

lemma scanDiagnostics_Resource:
  "\<forall>r. Inr r \<in> set rows \<longrightarrow> componentName r \<noteq> ''resource''
   \<Longrightarrow> Resource (scanDiagnostics rows d) = Resource d"
  by (induction rows d rule: scanDiagnostics.induct) auto

lemma scanDiagnostics_QueryProcessing:
  "\<forall>r. Inr r \<in> set rows \<longrightarrow> componentName r \<noteq> ''query_processing''
   \<Longrightarrow> QueryProcessing (scanDiagnostics rows d) = QueryProcessing d"
  by (induction rows d rule: scanDiagnostics.induct) auto

text \<open>
  C10. \<open>QueryDiagnostics\<close> starts from the all-false value and sets a component only
  when it scans a row with exactly that component name. So when the rows of the reply
  hold no row named \<open>system\<close> (an empty result set, for one), \<open>System\<close> stays false and
  \<open>Diagnose\<close> gives what it gives for a reported system failure: the
  \<open>ServerUnhealthyError\<close> of severity \<open>ServerCriticalError\<close>. The same holds, for
  their booleans, of the names \<open>resource\<close> and \<open>query_processing\<close>.
\<close>

theorem QueryDiagnostics_missing_rows:
  assumes "sp_server_diagnostics_reply db h = Inr (rows, rowsErr)"
  shows "((\<forall>r. Inr r \<in> set rows \<longrightarrow> componentName r \<noteq> ''system'')
          \<longrightarrow> \<not> System (fst (fst (QueryDiagnostics db h)))
              \<and> Diagnose (fst (fst (QueryDiagnostics db h)))
                  = Some (ServerUnhealthyError ServerCriticalError
                       (errorString ''sp_server_diagnostics result indicates system error''))
              \<and> Diagnose (fst (fst (QueryDiagnostics db h)))
                  = Diagnose \<lparr>System = False, Resource = res, QueryProcessing = qp\<rparr>)
       \<and> ((\<forall>r. Inr r \<in> set rows \<longrightarrow> componentName r \<noteq> ''resource'')
          \<longrightarrow> \<not> Resource (fst (fst (QueryDiagnostics db h))))
       \<and> ((\<forall>r. Inr r \<in> set rows \<longrightarrow> componentName r \<noteq> ''query_processing'')
          \<longrightarrow> \<not> QueryProcessing (fst (fst (QueryDiagnostics db h))))"
  using assms
  by (simp add: QueryDiagnostics_def scanDiagnostics_System scanDiagnostics_Resource
      scanDiagnostics_QueryProcessing noDiagnostics_def Diagnose_def)

theorem QueryDiagnostics_missing_rows_witness:
  "\<not> System (fst (fst (QueryDiagnostics
        (scriptedServer
           [Inr \<lparr>creationTime = [], componentType = [], componentName = ''resource'',
                 state = 1, stateDesc = [], data = []\<rparr>] 2 1 3) [])))
   \<and> Diagnose (fst (fst (QueryDiagnostics
        (scriptedServer
           [Inr \<lparr>creationTime = [], componentType = [], componentName = ''resource'',
                 state = 1, stateDesc = [], data = []\<rparr>] 2 1 3) [])))
       = Some (ServerUnhealthyError 3
                 (errorString ''sp_server_diagnostics result indicates system error''))
   \<and> \<not> System (fst (fst (QueryDiagnostics (scriptedServer [] 2 1 3) [])))"
  using QueryDiagnostics_missing_rows
      [of "scriptedServer
             [Inr \<lparr>creationTime = [], componentType = [], componentName = ''resource'',
                   state = 1, stateDesc = [], data = []\<rparr>] 2 1 3" "[]"
          "[Inr \<lparr>creationTime = [], componentType = [], componentName = ''resource'',
                   state = 1, stateDesc = [], data = []\<rparr>]" None False False]
    QueryDiagnostics_missing_rows [of "scriptedServer [] 2 1 3" "[]" "[]" None False False]
  by (simp add: scriptedServer_def ServerCriticalError_def)

subsection \<open>The loop over the sequence-number lines\<close>

lemma isDigit_not_sign: "isDigit c \<Longrightarrow> c \<noteq> CHR ''+'' \<and> c \<noteq> CHR ''-''"
  by (auto simp: isDigit_def)

lemma FindStringSubmatch_digits:
  "FindStringSubmatch line = Some (host, v) \<Longrightarrow> v \<noteq> [] \<and> list_all isDigit v"
  by (auto simp: FindStringSubmatch_def list_all_iff split: option.splits if_splits
      dest: set_takeWhileD)

lemma ParseInt_digits:
  assumes "v \<noteq> []" "list_all isDigit v"
  shows "ParseInt v = (if decimal v < 2 ^ 63 then Inr (int (decimal v))
                       else Inl (errorString (''strconv.ParseInt: parsing '' @ [CHR 0x22] @ v
                                          @ [CHR 0x22] @ '': value out of range'')))"
proof -
  from assms have "isDigit (hd v)" by (cases v) auto
  then have "hd v \<noteq> CHR ''+''" "hd v \<noteq> CHR ''-''" using isDigit_not_sign by auto
  with assms show ?thesis
    by (auto simp: ParseInt_def parseSigned64_def Let_def)
qed

lemma scanSequenceNumbers_fits:
  assumes "\<forall>(host, v) \<in> set (List.map_filter FindStringSubmatch lines). decimal v < 2 ^ 63"
  shows "\<exists>mx'. scanSequenceNumbers nm lines (mx, cur, n)
           = Inr (mx',
                  (case filter (\<lambda>(host', v). host' = nm)
                          (map (\<lambda>(host, valueText). (host, decimal valueText))
                              (List.map_filter FindStringSubmatch lines)) of
                     [] \<Rightarrow> cur | x # xs \<Rightarrow> int (snd (last (x # xs)))),
                  n + of_nat (length (List.map_filter FindStringSubmatch lines)))
         \<and> mx \<le> mx'
         \<and> (\<forall>(host, v) \<in> set (List.map_filter FindStringSubmatch lines). int (decimal v) \<le> mx')
         \<and> (mx' = mx \<or> (\<exists>(host, v) \<in> set (List.map_filter FindStringSubmatch lines).
                            mx' = int (decimal v)))"
  using assms
proof (induction lines arbitrary: mx cur n)
  case Nil
  then show ?case by (simp add: map_filter_simps)
next
  case (Cons line lines)
  show ?case
  proof (cases "FindStringSubmatch line")
    case None
    with Cons.prems Cons.IH [of mx cur n] show ?thesis
      by (simp add: map_filter_simps)
  next
    case (Some m)
    obtain host v where m: "m = (host, v)" by (cases m)
    from Some m have dig: "v \<noteq> []" "list_all isDigit v"
      using FindStringSubmatch_digits by blast+
    from Cons.prems Some m have fit: "decimal v < 2 ^ 63"
      and rest: "\<forall>(host, v) \<in> set (List.map_filter FindStringSubmatch lines). decimal v < 2 ^ 63"
      by (auto simp: map_filter_simps)
    let ?mx = "if int (decimal v) > mx then int (decimal v) else mx"
    let ?cur = "if host = nm then int (decimal v) else cur"
    from Cons.IH [OF rest, of ?mx ?cur "n + 1"]
    obtain mx' where
      r: "scanSequenceNumbers nm lines (?mx, ?cur, n + 1)
           = Inr (mx',
                  (case filter (\<lambda>(host', v). host' = nm)
                          (map (\<lambda>(host, valueText). (host, decimal valueText))
                              (List.map_filter FindStringSubmatch lines)) of
                     [] \<Rightarrow> ?cur | x # xs \<Rightarrow> int (snd (last (x # xs)))),
                  n + 1 + of_nat (length (List.map_filter FindStringSubmatch lines)))"
      and le: "?mx \<le> mx'"
      and ub: "\<forall>(host, v) \<in> set (List.map_filter FindStringSubmatch lines). int (decimal v) \<le> mx'"
      and at: "mx' = ?mx \<or> (\<exists>(host, v) \<in> set (List.map_filter FindStringSubmatch lines).
                            mx' = int (decimal v))"
      by blast
    have step: "scanSequenceNumbers nm (line # lines) (mx, cur, n)
                 = scanSequenceNumbers nm lines (?mx, ?cur, n + 1)"
      using Some m fit by (simp add: ParseInt_digits [OF dig])
    show ?thesis
      apply (rule exI [of _ mx'])
      using Some m r le ub at unfolding step
      by (auto simp: map_filter_simps split: list.splits if_splits)
  qed
qed

lemma scanSequenceNumbers_overflow:
  assumes "\<not> (\<forall>(host, v) \<in> set (List.map_filter FindStringSubmatch lines). decimal v < 2 ^ 63)"
  shows "\<exists>err. scanSequenceNumbers nm lines vars = Inl err"
  using assms
proof (induction lines arbitrary: vars)
  case Nil
  then show ?case by (simp add: map_filter_simps)
next
  case (Cons line lines)
  obtain mx cur n where vars: "vars = (mx, cur, n)" by (cases vars)
  show ?case
  proof (cases "FindStringSubmatch line")
    case None
    with Cons vars show ?thesis by (simp add: map_filter_simps)
  next
    case (Some m)
    obtain host v where m: "m = (host, v)" by (cases m)
    from Some m have dig: "v \<noteq> []" "list_all isDigit v"
      using FindStringSubmatch_digits by blast+
    show ?thesis
    proof (cases "decimal v < 2 ^ 63")
      case True
      with Cons.prems Some m
      have "\<not> (\<forall>(host, v) \<in> set (List.map_filter FindStringSubmatch lines). decimal v < 2 ^ 63)"
        by (auto simp: map_filter_simps)
      from Cons.IH [OF this] True Some m vars show ?thesis
        by (simp add: ParseInt_digits [OF dig])
    next
      case False
      with Some m vars show ?thesis by (simp add: ParseInt_digits [OF dig])
    qed
  qed
qed

lemma scan_matched:
  assumes "\<forall>(host, v) \<in> set (matchedLines blob). v < 2 ^ 63"
  shows "\<exists>mx. scanSequenceNumbers nm (Split blob (CHR 0x0A)) (0, 0, 0)
           = Inr (mx, int (recordedValue nm (matchedLines blob)),
                  of_nat (length (matchedLines blob)))
         \<and> (\<forall>(host, v) \<in> set (matchedLines blob). int v \<le> mx)
         \<and> (mx = 0 \<or> (\<exists>(host, v) \<in> set (matchedLines blob). mx = int v))"
proof -
  let ?ms = "List.map_filter FindStringSubmatch (Split blob (CHR 0x0A))"
  have set_ms: "set (matchedLines blob) = (\<lambda>(host, valueText). (host, decimal valueText)) ` set ?ms"
    by (simp add: matchedLines_def)
  from assms have "\<forall>(host, v) \<in> set ?ms. decimal v < 2 ^ 63"
    unfolding set_ms by auto
  from scanSequenceNumbers_fits [OF this, of nm 0 0 0]
  obtain mx where
    r: "scanSequenceNumbers nm (Split blob (CHR 0x0A)) (0, 0, 0)
           = Inr (mx,
                  (case filter (\<lambda>(host', v). host' = nm) (matchedLines blob) of
                     [] \<Rightarrow> 0 | x # xs \<Rightarrow> int (snd (last (x # xs)))),
                  of_nat (length ?ms))"
    and ub: "\<forall>(host, v) \<in> set ?ms. int (decimal v) \<le> mx"
    and at: "mx = 0 \<or> (\<exists>(host, v) \<in> set ?ms. mx = int (decimal v))"
    unfolding matchedLines_def by auto
  have cur: "(case filter (\<lambda>(host', v). host' = nm) (matchedLines blob) of
                     [] \<Rightarrow> 0 | x # xs \<Rightarrow> int (snd (last (x # xs))))
             = int (recordedValue nm (matchedLines blob))"
    by (simp add: recordedValue_def split: list.splits)
  have len: "length ?ms = length (matchedLines blob)"
    by (simp add: matchedLines_def)
  from ub have ub': "\<forall>(host, v) \<in> set (matchedLines blob). int v \<le> mx"
    unfolding set_ms by auto
  from at have at': "mx = 0 \<or> (\<exists>(host, v) \<in> set (matchedLines blob). mx = int v)"
    unfolding set_ms by auto
  from r ub' at' show ?thesis unfolding cur len by blast
qed

lemma scan_overflow:
  assumes "\<not> (\<forall>(host, v) \<in> set (matchedLines blob). v < 2 ^ 63)"
  shows "\<exists>err. scanSequenceNumbers nm (Split blob (CHR 0x0A)) vars = Inl err"
proof -
  from assms
  have "\<not> (\<forall>(host, v) \<in> set (List.map_filter FindStringSubmatch (Split blob (CHR 0x0A))).
             decimal v < 2 ^ 63)"
    by (auto simp: matchedLines_def)
  then show ?thesis by (rule scanSequenceNumbers_overflow)
qed

lemma scan_behind:
  assumes "\<exists>(host, v) \<in> set (matchedLines blob). recordedValue nm (matchedLines blob) < v"
  shows "(\<exists>err. scanSequenceNumbers nm (Split blob (CHR 0x0A)) (0, 0, 0) = Inl err)
       \<or> (\<exists>mx cur n. scanSequenceNumbers nm (Split blob (CHR 0x0A)) (0, 0, 0) = Inr (mx, cur, n)
            \<and> cur < mx)"
proof (cases "\<forall>(host, v) \<in> set (matchedLines blob). v < 2 ^ 63")
  case True
  from scan_matched [OF True, of nm] assms show ?thesis by fastforce
next
  case False
  from scan_overflow [OF False] show ?thesis by blast
qed


subsection \<open>The early returns of promote\<close>

lemma promote_role_error:
  assumes "GetRole_reply db h ag = Inl err"
  shows "promote db codes ag blob nm skip req h
         = Some ((OCF_ERR_GENERIC codes,
                  Some (errorString
                    (''Could not check if local replica is in PRIMARY role: '' @ Error err))),
                 h @ [CallGetRole ag])"
  using assms by (simp add: promote_def isPrimary_def GetRole_def)

lemma promote_already_primary:
  assumes "GetRole_reply db h ag = Inr (RolePRIMARY, desc)"
  shows "promote db codes ag blob nm skip req h
         = Some ((OCF_SUCCESS codes, None), h @ [CallGetRole ag])"
  using assms by (simp add: promote_def isPrimary_def GetRole_def)

lemma promote_precheck_error:
  assumes "GetRole_reply db h ag = Inr (role, desc)" "role \<noteq> RolePRIMARY" "\<not> skip"
    and "GetAvailabilityMode_reply db (h @ [CallGetRole ag]) ag = Inl err"
  shows "promote db codes ag blob nm skip req h
         = Some ((OCF_ERR_GENERIC codes,
                  Some (errorString
                    (''Could not query availability mode of local replica: '' @ Error err))),
                 h @ [CallGetRole ag, CallGetAvailabilityMode ag])"
  using assms by (simp add: promote_def isPrimary_def GetRole_def GetAvailabilityMode_def)

lemma promote_precheck_mode:
  assumes "GetRole_reply db h ag = Inr (role, desc)" "role \<noteq> RolePRIMARY" "\<not> skip"
    and "GetAvailabilityMode_reply db (h @ [CallGetRole ag]) ag = Inr (m, mdesc)"
    and "m \<noteq> AmSYNCHRONOUS_COMMIT"
  shows "promote db codes ag blob nm skip req h
         = Some ((OCF_ERR_GENERIC codes,
                  Some (errorString
                    (''Local replica has availabilty mode '' @ mdesc @ '' ('' @ fmt_d (uint m)
                     @ ''), so it cannot be promoted to PRIMARY''))),
                 h @ [CallGetRole ag, CallGetAvailabilityMode ag])"
  using assms by (simp add: promote_def isPrimary_def GetRole_def GetAvailabilityMode_def)

lemma promote_scan_error:
  assumes "GetRole_reply db h ag = Inr (role, desc)" "role \<noteq> RolePRIMARY"
    and "(skip \<and> h2 = h @ [CallGetRole ag])
         \<or> (\<not> skip
             \<and> GetAvailabilityMode_reply db (h @ [CallGetRole ag]) ag
                 = Inr (AmSYNCHRONOUS_COMMIT, mdesc)
             \<and> h2 = h @ [CallGetRole ag, CallGetAvailabilityMode ag])"
    and "scanSequenceNumbers nm (Split blob (CHR 0x0A)) (0, 0, 0) = Inl err"
  shows "promote db codes ag blob nm skip req h
         = Some ((OCF_ERR_GENERIC codes,
                  Some (errorString (''Could not parse sequence number line: '' @ Error err))),
                 h2)"
  using assms(3)
proof (elim disjE conjE)
  assume "skip" "h2 = h @ [CallGetRole ag]"
  with assms(1,2,4) show ?thesis
    by (simp add: promote_def isPrimary_def GetRole_def)
next
  assume "\<not> skip"
    "GetAvailabilityMode_reply db (h @ [CallGetRole ag]) ag = Inr (AmSYNCHRONOUS_COMMIT, mdesc)"
    "h2 = h @ [CallGetRole ag, CallGetAvailabilityMode ag]"
  with assms(1,2,4) show ?thesis
    by (simp add: promote_def isPrimary_def GetRole_def GetAvailabilityMode_def)
qed

lemma promote_behind:
  assumes "GetRole_reply db h ag = Inr (role, desc)" "role \<noteq> RolePRIMARY"
    and "(skip \<and> h2 = h @ [CallGetRole ag])
         \<or> (\<not> skip
             \<and> GetAvailabilityMode_reply db (h @ [CallGetRole ag]) ag
                 = Inr (AmSYNCHRONOUS_COMMIT, mdesc)
             \<and> h2 = h @ [CallGetRole ag, CallGetAvailabilityMode ag])"
    and "scanSequenceNumbers nm (Split blob (CHR 0x0A)) (0, 0, 0) = Inr (mx, cur, n)"
    and "cur < mx"
  shows "promote db codes ag blob nm skip req h
         = Some ((OCF_ERR_GENERIC codes,
                  Some (errorString
                    (''Local replica has sequence number '' @ fmt_d cur
                     @ '' but max sequence number is '' @ fmt_d mx
                     @ '', so it cannot be promoted''))),
                 h2)"
  using assms(3)
proof (elim disjE conjE)
  assume "skip" "h2 = h @ [CallGetRole ag]"
  with assms(1,2,4,5) show ?thesis
    by (simp add: promote_def isPrimary_def GetRole_def)
next
  assume "\<not> skip"
    "GetAvailabilityMode_reply db (h @ [CallGetRole ag]) ag = Inr (AmSYNCHRONOUS_COMMIT, mdesc)"
    "h2 = h @ [CallGetRole ag, CallGetAvailabilityMode ag]"
  with assms(1,2,4,5) show ?thesis
    by (simp add: promote_def isPrimary_def GetRole_def GetAvailabilityMode_def)
qed

lemma promote_too_few:
  assumes "GetRole_reply db h ag = Inr (role, desc)" "role \<noteq> RolePRIMARY"
    and "(skip \<and> h2 = h @ [CallGetRole ag])
         \<or> (\<not> skip
             \<and> GetAvailabilityMode_reply db (h @ [CallGetRole ag]) ag
                 = Inr (AmSYNCHRONOUS_COMMIT, mdesc)
             \<and> h2 = h @ [CallGetRole ag, CallGetAvailabilityMode ag])"
    and "scanSequenceNumbers nm (Split blob (CHR 0x0A)) (0, 0, 0) = Inr (mx, cur, n)"
    and "\<not> cur < mx" "cur \<noteq> 0"
    and "GetNumSyncCommitReplicas_reply db h2 ag = Inr numSync"
    and "n < numSync - (case req of None \<Rightarrow> calculateRequiredSynchronizedSecondariesToCommit numSync
                                  | Some v \<Rightarrow> v)"
  shows "promote db codes ag blob nm skip req h
         = Some ((OCF_ERR_GENERIC codes,
                  Some (errorString
                    (''Expected to receive '' @ fmt_d (uint n)
                     @ '' sequence numbers but only received ''
                     @ fmt_d (uint (numSync
                         - (case req of
                              None \<Rightarrow> calculateRequiredSynchronizedSecondariesToCommit numSync
                            | Some v \<Rightarrow> v)))
                     @ ''. Not enough replicas are online to safely promote the local replica.''))),
                 h2 @ [CallGetNumSyncCommitReplicas ag])"
  using assms(3)
proof (elim disjE conjE)
  assume "skip" "h2 = h @ [CallGetRole ag]"
  with assms(1,2,4-) show ?thesis
    by (simp add: promote_def isPrimary_def GetRole_def GetNumSyncCommitReplicas_def Let_def)
next
  assume "\<not> skip"
    "GetAvailabilityMode_reply db (h @ [CallGetRole ag]) ag = Inr (AmSYNCHRONOUS_COMMIT, mdesc)"
    "h2 = h @ [CallGetRole ag, CallGetAvailabilityMode ag]"
  with assms(1,2,4-) show ?thesis
    by (simp add: promote_def isPrimary_def GetRole_def GetAvailabilityMode_def
        GetNumSyncCommitReplicas_def Let_def)
qed

lemma promote_zero:
  assumes "GetRole_reply db h ag = Inr (role, desc)" "role \<noteq> RolePRIMARY"
    and "(skip \<and> h2 = h @ [CallGetRole ag])
         \<or> (\<not> skip
             \<and> GetAvailabilityMode_reply db (h @ [CallGetRole ag]) ag
                 = Inr (AmSYNCHRONOUS_COMMIT, mdesc)
             \<and> h2 = h @ [CallGetRole ag, CallGetAvailabilityMode ag])"
    and "scanSequenceNumbers nm (Split blob (CHR 0x0A)) (0, 0, 0) = Inr (mx, cur, n)"
    and "\<not> cur < mx" "cur = 0"
  shows "promote db codes ag blob nm skip req h
         = Some ((OCF_ERR_GENERIC codes,
                  Some (errorString
                    (''Local replica has sequence number '' @ fmt_d cur
                     @ '', so it cannot be promoted''))),
                 h2)"
  using assms(3)
proof (elim disjE conjE)
  assume "skip" "h2 = h @ [CallGetRole ag]"
  with assms(1,2,4-) show ?thesis
    by (simp add: promote_def isPrimary_def GetRole_def)
next
  assume "\<not> skip"
    "GetAvailabilityMode_reply db (h @ [CallGetRole ag]) ag = Inr (AmSYNCHRONOUS_COMMIT, mdesc)"
    "h2 = h @ [CallGetRole ag, CallGetAvailabilityMode ag]"
  with assms(1,2,4-) show ?thesis
    by (simp add: promote_def isPrimary_def GetRole_def GetAvailabilityMode_def)
qed


lemma precheck_cases:
  obtains (fails) err where "\<not> skip"
      "GetAvailabilityMode_reply db (h @ [CallGetRole ag]) ag = Inl err"
  | (mode) m mdesc where "\<not> skip"
      "GetAvailabilityMode_reply db (h @ [CallGetRole ag]) ag = Inr (m, mdesc)"
      "m \<noteq> AmSYNCHRONOUS_COMMIT"
  | (passes) h2 mdesc where
      "(skip \<and> h2 = h @ [CallGetRole ag])
       \<or> (\<not> skip
           \<and> GetAvailabilityMode_reply db (h @ [CallGetRole ag]) ag
               = Inr (AmSYNCHRONOUS_COMMIT, mdesc)
           \<and> h2 = h @ [CallGetRole ag, CallGetAvailabilityMode ag])"
      "h2 = h @ CallGetRole ag # (if skip then [] else [CallGetAvailabilityMode ag])"
proof (cases skip)
  case True
  then have "(skip \<and> h @ [CallGetRole ag] = h @ [CallGetRole ag])
       \<or> (\<not> skip
           \<and> GetAvailabilityMode_reply db (h @ [CallGetRole ag]) ag
               = Inr (AmSYNCHRONOUS_COMMIT, [])
           \<and> h @ [CallGetRole ag] = h @ [CallGetRole ag, CallGetAvailabilityMode ag])"
    by blast
  moreover from True
  have "h @ [CallGetRole ag] = h @ CallGetRole ag # (if skip then [] else [CallGetAvailabilityMode ag])"
    by simp
  ultimately show ?thesis by (rule passes)
next
  case False
  show ?thesis
  proof (cases "GetAvailabilityMode_reply db (h @ [CallGetRole ag]) ag")
    case (Inl err)
    with False show ?thesis by (rule fails)
  next
    case (Inr a)
    obtain m mdesc where a: "a = (m, mdesc)" by (cases a)
    show ?thesis
    proof (cases "m = AmSYNCHRONOUS_COMMIT")
      case True
      with False Inr a
      have "(skip \<and> h @ [CallGetRole ag, CallGetAvailabilityMode ag] = h @ [CallGetRole ag])
       \<or> (\<not> skip
           \<and> GetAvailabilityMode_reply db (h @ [CallGetRole ag]) ag
               = Inr (AmSYNCHRONOUS_COMMIT, mdesc)
           \<and> h @ [CallGetRole ag, CallGetAvailabilityMode ag]
               = h @ [CallGetRole ag, CallGetAvailabilityMode ag])"
        by simp
      moreover from False
      have "h @ [CallGetRole ag, CallGetAvailabilityMode ag]
            = h @ CallGetRole ag # (if skip then [] else [CallGetAvailabilityMode ag])"
        by simp
      ultimately show ?thesis by (rule passes)
    next
      case notSync: False
      from False Inr [unfolded a] notSync show ?thesis by (rule mode)
    qed
  qed
qed

text \<open>
  C1, as the code has it. When the local replica is not already PRIMARY (the role query
  fails or reports another role) and some matching line carries a value greater than the
  value recorded for \<open>new-master\<close> (0 when no line names it), \<open>promote\<close> returns
  \<open>OCF_ERR_GENERIC\<close> with an error and has sent no statement to the instance: no
  FAILOVER, nothing that changes the database. (A replica that is already PRIMARY makes
  \<open>promote\<close> return \<open>OCF_SUCCESS\<close> before it reads the sequence numbers.)
\<close>

theorem promote_monotonicity:
  assumes notPrimary: "\<forall>desc. GetRole_reply db h ag \<noteq> Inr (RolePRIMARY, desc)"
    and ahead: "\<exists>(host, v) \<in> set (matchedLines blob). recordedValue nm (matchedLines blob) < v"
  shows "\<exists>msg calls. promote db codes ag blob nm skip req h
            = Some ((OCF_ERR_GENERIC codes, Some msg), h @ calls)
          \<and> (\<forall>statement args. CallExec statement args \<notin> set calls)"
proof (cases "GetRole_reply db h ag")
  case (Inl err)
  from promote_role_error [OF Inl] show ?thesis by simp
next
  case (Inr r)
  obtain role desc where r: "r = (role, desc)" by (cases r)
  with Inr notPrimary have role: "GetRole_reply db h ag = Inr (role, desc)" "role \<noteq> RolePRIMARY"
    by auto
  show ?thesis
  proof (cases rule: precheck_cases [of skip db h ag])
    case fails
    from promote_precheck_error [OF role fails] show ?thesis by simp
  next
    case mode
    from promote_precheck_mode [OF role mode] show ?thesis by simp
  next
    case passes
    from scan_behind [OF ahead]
    consider err where "scanSequenceNumbers nm (Split blob (CHR 0x0A)) (0, 0, 0) = Inl err"
      | mx cur n where "scanSequenceNumbers nm (Split blob (CHR 0x0A)) (0, 0, 0) = Inr (mx, cur, n)"
          "cur < mx"
      by blast
    then show ?thesis
    proof cases
      case 1
      from promote_scan_error [OF role passes(1) 1] passes(2) show ?thesis by auto
    next
      case 2
      from promote_behind [OF role passes(1) 2] passes(2) show ?thesis by auto
    qed
  qed
qed

text \<open>
  C1 as stated fails when the replica is already PRIMARY: with the line of host A at 10 and
  \<open>new-master\<close> B at 9, and OCF_ERR_GENERIC = 1, \<open>promote\<close> returns OCF_SUCCESS = 0.
\<close>

theorem promote_monotonicity_counterexample:
  \<open>matchedLines (''name="s" host="A" value="10"'' @ [CHR 0x0A] @ ''name="s" host="B" value="9"'')
     = [(''A'', 10), (''B'', 9)]
   \<and> recordedValue ''B'' [(''A'', 10), (''B'', 9)] = 9
   \<and> promote (scriptedServer [] RolePRIMARY AmSYNCHRONOUS_COMMIT 3)
        (initialOcfExitCodes\<lparr>OCF_ERR_GENERIC := 1\<rparr>) ''ag1''
        (''name="s" host="A" value="10"'' @ [CHR 0x0A] @ ''name="s" host="B" value="9"'')
        ''B'' False None []
      = Some ((0, None), [CallGetRole ''ag1''])
   \<and> OCF_ERR_GENERIC (initialOcfExitCodes\<lparr>OCF_ERR_GENERIC := 1\<rparr>) = 1\<close>
proof -
  have \<open>matchedLines (''name="s" host="A" value="10"'' @ [CHR 0x0A] @ ''name="s" host="B" value="9"'')
     = [(''A'', 10), (''B'', 9)]\<close>
    by (simp add: matchedLines_def map_filter_simps FindStringSubmatch_def stripPrefix_def
        notQuote_def isDigit_def decimal_def digitVal_def)
  moreover have "recordedValue ''B'' [(''A'', 10), (''B'', 9)] = 9"
    by (simp add: recordedValue_def)
  moreover have "GetRole_reply (scriptedServer [] RolePRIMARY AmSYNCHRONOUS_COMMIT 3) [] ''ag1''
                   = Inr (RolePRIMARY, [])"
    by (simp add: scriptedServer_def)
  note promote_already_primary [OF this]
  ultimately show ?thesis by (simp add: initialOcfExitCodes_def)
qed

theorem promote_monotonicity_witness:
  \<open>\<exists>msg calls.
      promote (scriptedServer [] RoleSECONDARY AmSYNCHRONOUS_COMMIT 3)
        (initialOcfExitCodes\<lparr>OCF_ERR_GENERIC := 1\<rparr>) ''ag1''
        (''name="s" host="A" value="10"'' @ [CHR 0x0A] @ ''name="s" host="B" value="9"'')
        ''B'' False None []
        = Some ((1, Some msg), calls)
      \<and> (\<forall>statement args. CallExec statement args \<notin> set calls)\<close>
proof -
  have ml: \<open>matchedLines (''name="s" host="A" value="10"'' @ [CHR 0x0A] @ ''name="s" host="B" value="9"'')
     = [(''A'', 10), (''B'', 9)]\<close>
    by (simp add: matchedLines_def map_filter_simps FindStringSubmatch_def stripPrefix_def
        notQuote_def isDigit_def decimal_def digitVal_def)
  have role: "\<forall>desc. GetRole_reply (scriptedServer [] RoleSECONDARY AmSYNCHRONOUS_COMMIT 3) []
                  ''ag1'' \<noteq> Inr (RolePRIMARY, desc)"
    by (simp add: scriptedServer_def RoleSECONDARY_def RolePRIMARY_def)
  have ahead: \<open>\<exists>(host, v) \<in> set (matchedLines (''name="s" host="A" value="10"'' @ [CHR 0x0A]
                                       @ ''name="s" host="B" value="9"'')).
                 recordedValue ''B'' (matchedLines (''name="s" host="A" value="10"'' @ [CHR 0x0A]
                                       @ ''name="s" host="B" value="9"'')) < v\<close>
    unfolding ml by (simp add: recordedValue_def)
  from promote_monotonicity [OF role ahead,
      of "initialOcfExitCodes\<lparr>OCF_ERR_GENERIC := 1\<rparr>" False None]
  show ?thesis by (simp add: initialOcfExitCodes_def)
qed


subsection \<open>The quorum check of promote\<close>

lemma few_unat:
  fixes numSync requiredValue :: go_uint
  assumes "int k < int (unat numSync) - int (unat requiredValue)
           \<or> k < unat (numSync - requiredValue)"
  shows "k < unat (numSync - requiredValue)"
  using assms
proof
  assume a: "int k < int (unat numSync) - int (unat requiredValue)"
  then have "unat requiredValue \<le> unat numSync" by linarith
  then have "requiredValue \<le> numSync" by (simp add: word_le_nat_alt)
  then have "unat (numSync - requiredValue) = unat numSync - unat requiredValue"
    by (rule unat_sub)
  with a show ?thesis by linarith
qed

lemma count_as_word:
  fixes limit :: go_uint
  assumes "k < unat limit"
  shows "(of_nat k :: go_uint) < limit" and "uint (of_nat k :: go_uint) = int k"
proof -
  have "unat limit < 2 ^ 64" using unsigned_less [of limit, where ?'a = nat] by simp
  with assms have k: "k < 2 ^ 64" by linarith
  then have u: "unat (of_nat k :: go_uint) = k" by (simp add: unat_of_nat)
  with assms show "(of_nat k :: go_uint) < limit" by (simp add: word_less_nat_alt)
  from u show "uint (of_nat k :: go_uint) = int k" by (simp add: uint_nat)
qed

lemma length_Split: "length (Split s c) \<le> length s + 1"
  by (induction s) (auto split: list.splits)

lemma length_matchedLines: "length (matchedLines blob) \<le> length blob + 1"
proof -
  have "length (matchedLines blob) \<le> length (Split blob (CHR 0x0A))"
    by (simp add: matchedLines_def map_filter_def)
  with length_Split [of blob "CHR 0x0A"] show ?thesis by linarith
qed

lemma override_wraps:
  fixes numSync v :: go_uint
  assumes "numSync < v"
  shows "uint (numSync - v) = 2 ^ 64 - (uint v - uint numSync)"
proof -
  from assms have "uint numSync < uint v" by (simp add: word_less_def)
  then show ?thesis by (simp add: uint_sub_if')
qed

lemma override_count:
  fixes numSync v :: go_uint
  assumes "numSync < v" "uint v \<le> 2147483647" "int (length blob) < 2 ^ 63"
  shows "length (matchedLines blob) < unat (numSync - v)"
proof -
  have "0 \<le> uint numSync" by simp
  with assms(2) have "uint v - uint numSync \<le> 2147483647" by linarith
  then have big: "(2 :: int) ^ 64 - 2147483647 \<le> uint (numSync - v)"
    unfolding override_wraps [OF assms(1)] by linarith
  from assms(3) length_matchedLines [of blob]
  have "int (length (matchedLines blob)) \<le> 2 ^ 63" by linarith
  with big have "int (length (matchedLines blob)) < uint (numSync - v)" by simp
  then show ?thesis by (simp only: uint_nat of_nat_less_iff)
qed

lemma promote_too_few_matched:
  assumes role: "GetRole_reply db h ag = Inr (role, desc)" "role \<noteq> RolePRIMARY"
    and pre: "(skip \<and> h2 = h @ [CallGetRole ag])
         \<or> (\<not> skip
             \<and> GetAvailabilityMode_reply db (h @ [CallGetRole ag]) ag
                 = Inr (AmSYNCHRONOUS_COMMIT, mdesc)
             \<and> h2 = h @ [CallGetRole ag, CallGetAvailabilityMode ag])"
    and fit: "\<forall>(host, v) \<in> set (matchedLines blob). v < 2 ^ 63"
    and top: "\<forall>(host, v) \<in> set (matchedLines blob). v \<le> recordedValue nm (matchedLines blob)"
    and nonzero: "recordedValue nm (matchedLines blob) \<noteq> 0"
    and numSync: "GetNumSyncCommitReplicas_reply db h2 ag = Inr numSync"
    and requiredValue:
      "requiredValue = (case req of
                          None \<Rightarrow> calculateRequiredSynchronizedSecondariesToCommit numSync
                        | Some v \<Rightarrow> v)"
    and k: "length (matchedLines blob) < unat (numSync - requiredValue)"
  shows "promote db codes ag blob nm skip req h
         = Some ((OCF_ERR_GENERIC codes,
                  Some (errorString
                    (''Expected to receive '' @ fmt_d (int (length (matchedLines blob)))
                     @ '' sequence numbers but only received ''
                     @ fmt_d (uint (numSync - requiredValue))
                     @ ''. Not enough replicas are online to safely promote the local replica.''))),
                 h2 @ [CallGetNumSyncCommitReplicas ag])"
proof -
  from scan_matched [OF fit, of nm] obtain mx where
    scan: "scanSequenceNumbers nm (Split blob (CHR 0x0A)) (0, 0, 0)
           = Inr (mx, int (recordedValue nm (matchedLines blob)),
                  of_nat (length (matchedLines blob)))"
    and at: "mx = 0 \<or> (\<exists>(host, v) \<in> set (matchedLines blob). mx = int v)"
    by blast
  from at top have notBehind: "\<not> int (recordedValue nm (matchedLines blob)) < mx"
    by fastforce
  from nonzero have cur: "int (recordedValue nm (matchedLines blob)) \<noteq> 0" by simp
  from count_as_word [OF k]
  have less: "(of_nat (length (matchedLines blob)) :: go_uint) < numSync - requiredValue"
    and shown: "uint (of_nat (length (matchedLines blob)) :: go_uint)
                  = int (length (matchedLines blob))"
    by simp_all
  from promote_too_few [OF role pre scan notBehind cur numSync
      less [unfolded requiredValue]]
  show ?thesis unfolding shown requiredValue .
qed

text \<open>
  C2. In \<open>promote\<close>, when the local replica is not already PRIMARY, the pre-check passes
  (it is skipped, or the availability mode is SYNCHRONOUS_COMMIT) and the sequence numbers
  pass (every value fits, none exceeds the value recorded for \<open>new-master\<close>, which is not
  0), with \<open>numSync\<close> the count the query returns and \<open>requiredValue\<close> the override or
  the computed value: if the number of matching lines is less than
  \<open>numSync - requiredValue\<close> (read as a difference of integers, or as the unsigned
  difference the code computes), \<open>promote\<close> returns \<open>OCF_ERR_GENERIC\<close> right after the
  count query, having sent no statement: FAILOVER is not issued.
\<close>

theorem promote_quorum:
  assumes role: "GetRole_reply db h ag = Inr (role, desc)" "role \<noteq> RolePRIMARY"
    and pre: "(skip \<and> h2 = h @ [CallGetRole ag])
         \<or> (\<not> skip
             \<and> GetAvailabilityMode_reply db (h @ [CallGetRole ag]) ag
                 = Inr (AmSYNCHRONOUS_COMMIT, mdesc)
             \<and> h2 = h @ [CallGetRole ag, CallGetAvailabilityMode ag])"
    and fit: "\<forall>(host, v) \<in> set (matchedLines blob). v < 2 ^ 63"
    and top: "\<forall>(host, v) \<in> set (matchedLines blob). v \<le> recordedValue nm (matchedLines blob)"
    and nonzero: "recordedValue nm (matchedLines blob) \<noteq> 0"
    and numSync: "GetNumSyncCommitReplicas_reply db h2 ag = Inr numSync"
    and requiredValue:
      "requiredValue = (case req of
                          None \<Rightarrow> calculateRequiredSynchronizedSecondariesToCommit numSync
                        | Some v \<Rightarrow> v)"
    and few: "int (length (matchedLines blob)) < int (unat numSync) - int (unat requiredValue)
              \<or> length (matchedLines blob) < unat (numSync - requiredValue)"
  shows "promote db codes ag blob nm skip req h
         = Some ((OCF_ERR_GENERIC codes,
                  Some (errorString
                    (''Expected to receive '' @ fmt_d (int (length (matchedLines blob)))
                     @ '' sequence numbers but only received ''
                     @ fmt_d (uint (numSync - requiredValue))
                     @ ''. Not enough replicas are online to safely promote the local replica.''))),
                 h2 @ [CallGetNumSyncCommitReplicas ag])
       \<and> (\<exists>calls. h2 @ [CallGetNumSyncCommitReplicas ag] = h @ calls
              \<and> (\<forall>statement args. CallExec statement args \<notin> set calls))"
proof -
  from pre
  have "\<exists>calls. h2 @ [CallGetNumSyncCommitReplicas ag] = h @ calls
              \<and> (\<forall>statement args. CallExec statement args \<notin> set calls)"
    by auto
  with promote_too_few_matched [OF role pre fit top nonzero numSync requiredValue
      few_unat [OF few]]
  show ?thesis by blast
qed

theorem promote_quorum_witness:
  \<open>promote (scriptedServer [] RoleSECONDARY AmSYNCHRONOUS_COMMIT 3)
      (initialOcfExitCodes\<lparr>OCF_ERR_GENERIC := 1\<rparr>) ''ag1''
      ''name="s" host="B" value="9"'' ''B'' False None []
    = Some ((1, Some (errorString ''Expected to receive 1 sequence numbers but only received 2. Not enough replicas are online to safely promote the local replica.'')),
            [CallGetRole ''ag1'', CallGetAvailabilityMode ''ag1'',
             CallGetNumSyncCommitReplicas ''ag1''])\<close>
proof -
  let ?db = "scriptedServer [] RoleSECONDARY AmSYNCHRONOUS_COMMIT 3"
  have ml: \<open>matchedLines ''name="s" host="B" value="9"'' = [(''B'', 9)]\<close>
    by (simp add: matchedLines_def map_filter_simps FindStringSubmatch_def stripPrefix_def
        notQuote_def isDigit_def decimal_def digitVal_def)
  have role: "GetRole_reply ?db [] ''ag1'' = Inr (RoleSECONDARY, [])"
      "RoleSECONDARY \<noteq> RolePRIMARY"
    by (simp_all add: scriptedServer_def RoleSECONDARY_def RolePRIMARY_def)
  have pre: "(False \<and> [CallGetRole ''ag1'', CallGetAvailabilityMode ''ag1''] = [] @ [CallGetRole ''ag1''])
         \<or> (\<not> False
             \<and> GetAvailabilityMode_reply ?db ([] @ [CallGetRole ''ag1'']) ''ag1''
                 = Inr (AmSYNCHRONOUS_COMMIT, [])
             \<and> [CallGetRole ''ag1'', CallGetAvailabilityMode ''ag1'']
                 = [] @ [CallGetRole ''ag1'', CallGetAvailabilityMode ''ag1''])"
    by (simp add: scriptedServer_def)
  have fit: \<open>\<forall>(host, v) \<in> set (matchedLines ''name="s" host="B" value="9"''). v < 2 ^ 63\<close>
    unfolding ml by simp
  have top: \<open>\<forall>(host, v) \<in> set (matchedLines ''name="s" host="B" value="9"'').
               v \<le> recordedValue ''B'' (matchedLines ''name="s" host="B" value="9"'')\<close>
    unfolding ml by (simp add: recordedValue_def)
  have nonzero: \<open>recordedValue ''B'' (matchedLines ''name="s" host="B" value="9"'') \<noteq> 0\<close>
    unfolding ml by (simp add: recordedValue_def)
  have numSync: "GetNumSyncCommitReplicas_reply ?db
                   [CallGetRole ''ag1'', CallGetAvailabilityMode ''ag1''] ''ag1'' = Inr 3"
    by (simp add: scriptedServer_def)
  have req: "(1 :: go_uint) = (case None :: go_uint option of
                  None \<Rightarrow> calculateRequiredSynchronizedSecondariesToCommit 3 | Some v \<Rightarrow> v)"
    by (simp add: calculateRequiredSynchronizedSecondariesToCommit_def)
  have few: \<open>int (length (matchedLines ''name="s" host="B" value="9"''))
                < int (unat (3 :: go_uint)) - int (unat (1 :: go_uint))
             \<or> length (matchedLines ''name="s" host="B" value="9"'') < unat ((3 :: go_uint) - 1)\<close>
    unfolding ml by simp
  from promote_quorum [OF role pre fit top nonzero numSync req few,
      of "initialOcfExitCodes\<lparr>OCF_ERR_GENERIC := 1\<rparr>"]
  show ?thesis
    unfolding ml by (simp add: initialOcfExitCodes_def fmt_d_def digits.simps)
qed

end
